theory Spec2Isabelle
  imports Main "HOL-Library.Monad_Syntax"
begin

text \<open>
  A model of the server of the facility-booking application: the schema
  (\<^verbatim>\<open>shared/schema.ts\<close>), the storage layer (\<^verbatim>\<open>server/storage.ts\<close>) and the route
  handlers with their middleware (\<^verbatim>\<open>server/routes.ts\<close>), as functions on an explicit
  database; then the properties of the booking workflow that hold of it.
\<close>

section \<open>Schema (shared/schema.ts)\<close>

text \<open>
  The four tables of the facility-booking application, as declared with drizzle in
  \<^verbatim>\<open>shared/schema.ts\<close>. A nullable column is an \<open>option\<close>; the four \<^verbatim>\<open>pgEnum\<close>s are
  datatypes, so a row cannot hold a value outside its enum. Every record field carries the
  table's initial as a prefix (\<open>u_\<close>, \<open>f_\<close>, \<open>b_\<close>, \<open>n_\<close>), since the tables share column
  names. Timestamps are natural numbers read from a clock that every call receives as
  \<open>now\<close>; \<^verbatim>\<open>new Date()\<close> and \<^verbatim>\<open>defaultNow()\<close> both read it.

  The constraints that relate rows are modelled: the unique email and every foreign key
  (\<^verbatim>\<open>references\<close>). So is what the database does with an id that a handler reads from
  the path, and with the notes of a review. The values of a validated body are taken to
  fit their columns (integers within \<^verbatim>\<open>integer\<close>, strings within their \<^verbatim>\<open>varchar\<close>
  length, well-formed dates and times).
\<close>

type_synonym timestamp = nat

datatype user_role = Student | Faculty | Admin
datatype booking_status = Pending | Approved | Rejected
datatype facility_status = Available | Maintenance | Closed
datatype notification_status = Unread | Read

record user =
  u_id :: int
  u_email :: string
  u_password :: string
  u_firstName :: "string option"
  u_lastName :: "string option"
  u_studentId :: "string option"
  u_role :: user_role
  u_createdAt :: "timestamp option"
  u_updatedAt :: "timestamp option"

record facility =
  f_id :: int
  f_name :: string
  f_description :: "string option"
  f_capacity :: "int option"
  f_location :: "string option"
  f_status :: facility_status
  f_amenities :: "string option"
  f_imageUrl :: "string option"
  f_createdAt :: "timestamp option"
  f_updatedAt :: "timestamp option"

record booking =
  b_id :: int
  b_userId :: int
  b_facilityId :: int
  b_eventName :: string
  b_eventDescription :: "string option"
  b_purpose :: "string option"
  b_eventDate :: string
  b_startTime :: string
  b_endTime :: string
  b_attendees :: "int option"
  b_equipmentNeeded :: "string option"
  b_status :: booking_status
  b_adminNotes :: "string option"
  b_reviewedBy :: "int option"
  b_reviewedAt :: "timestamp option"
  b_createdAt :: "timestamp option"
  b_updatedAt :: "timestamp option"

record notification =
  n_id :: int
  n_userId :: int
  n_title :: string
  n_message :: string
  n_type :: string
  n_relatedBookingId :: "int option"
  n_status :: notification_status
  n_createdAt :: "timestamp option"

text \<open>
  The insert types (\<^verbatim>\<open>createInsertSchema(...).omit(...)\<close>): the columns a caller may
  supply. A column that is nullable or has a default is optional; \<open>None\<close> stands for both
  an absent key and \<^verbatim>\<open>null\<close>. \<^verbatim>\<open>insertBookingSchema\<close> omits \<^verbatim>\<open>id\<close>, \<^verbatim>\<open>status\<close>,
  \<^verbatim>\<open>adminNotes\<close>, \<^verbatim>\<open>reviewedBy\<close>, \<^verbatim>\<open>reviewedAt\<close>, \<^verbatim>\<open>createdAt\<close> and \<^verbatim>\<open>updatedAt\<close>.
\<close>

record insert_user =
  iu_email :: string
  iu_password :: string
  iu_firstName :: "string option"
  iu_lastName :: "string option"
  iu_studentId :: "string option"
  iu_role :: "user_role option"

record insert_facility =
  fi_name :: string
  fi_description :: "string option"
  fi_capacity :: "int option"
  fi_location :: "string option"
  fi_status :: "facility_status option"
  fi_amenities :: "string option"
  fi_imageUrl :: "string option"

record insert_booking =
  ib_userId :: int
  ib_facilityId :: int
  ib_eventName :: string
  ib_eventDescription :: "string option"
  ib_purpose :: "string option"
  ib_eventDate :: string
  ib_startTime :: string
  ib_endTime :: string
  ib_attendees :: "int option"
  ib_equipmentNeeded :: "string option"

record insert_notification =
  in_userId :: int
  in_title :: string
  in_message :: string
  in_type :: "string option"
  in_relatedBookingId :: "int option"

text \<open>\<^verbatim>\<open>BookingWithRelations = Booking & { user?: User; facility?: Facility; reviewer?: User }\<close>\<close>

record booking_with_relations = booking +
  rel_user :: "user option"
  rel_facility :: "facility option"
  rel_reviewer :: "user option"

text \<open>
  A field of an update object (\<^verbatim>\<open>Partial<...>\<close>) over a nullable column: drizzle's
  \<^verbatim>\<open>set\<close> ignores a key whose value is \<^verbatim>\<open>undefined\<close>, writes NULL for \<^verbatim>\<open>null\<close>, and the
  value otherwise.
\<close>

datatype 'a upd = Undefined | Null | Value 'a

fun apply_upd :: "'a upd \<Rightarrow> 'a option \<Rightarrow> 'a option" where
  "apply_upd Undefined old = old"
| "apply_upd Null old = None"
| "apply_upd (Value v) old = Some v"

record user_patch =
  up_firstName :: "string upd"
  up_lastName :: "string upd"
  up_studentId :: "string upd"

record facility_patch =
  fp_name :: "string option"
  fp_description :: "string upd"
  fp_capacity :: "int upd"
  fp_location :: "string upd"
  fp_status :: "facility_status option"
  fp_amenities :: "string upd"
  fp_imageUrl :: "string upd"

section \<open>The database\<close>

text \<open>
  The relational store: each table is the list of its rows in insertion order, with the
  \<^verbatim>\<open>serial\<close> sequence that numbers the next row. A sequence moves forward even when
  the insert that read it fails.
\<close>

record db =
  users :: "user list"
  facilities :: "facility list"
  bookings :: "booking list"
  notifications :: "notification list"
  users_id_seq :: int
  facilities_id_seq :: int
  bookings_id_seq :: int
  notifications_id_seq :: int

definition empty_db :: db where
  "empty_db = \<lparr> users = [], facilities = [], bookings = [], notifications = [],
     users_id_seq = 1, facilities_id_seq = 1, bookings_id_seq = 1, notifications_id_seq = 1 \<rparr>"

text \<open>A statement that the database refuses throws; the handlers catch it.\<close>

datatype db_error = UniqueViolation | ForeignKeyViolation | InvalidParameter

section \<open>JavaScript values on their way to the database\<close>

text \<open>
  Strings are sequences of bytes, in UTF-8. \<^verbatim>\<open>parseInt(s)\<close>, with no radix: leading
  white space is skipped (the \<^verbatim>\<open>WhiteSpace\<close> and \<^verbatim>\<open>LineTerminator\<close> code points, here in
  their encodings), then a sign is read, then \<^verbatim>\<open>0x\<close> or \<^verbatim>\<open>0X\<close> selects radix 16, then
  the longest run of digits of the radix is the number; with no digit the result is
  \<^verbatim>\<open>NaN\<close>, which is \<open>None\<close>. The number is kept exact here. JavaScript rounds it to
  a double, which changes no number of 32 bits and leaves every other number outside that
  range, where the database refuses it.
\<close>

definition whitespace :: "string list" where
  "whitespace =
     [[CHR 0x09], [CHR 0x0A], [CHR 0x0B], [CHR 0x0C], [CHR 0x0D], [CHR 0x20],
      [CHR 0xC2, CHR 0xA0], [CHR 0xE1, CHR 0x9A, CHR 0x80],
      [CHR 0xE2, CHR 0x80, CHR 0x80], [CHR 0xE2, CHR 0x80, CHR 0x81],
      [CHR 0xE2, CHR 0x80, CHR 0x82], [CHR 0xE2, CHR 0x80, CHR 0x83],
      [CHR 0xE2, CHR 0x80, CHR 0x84], [CHR 0xE2, CHR 0x80, CHR 0x85],
      [CHR 0xE2, CHR 0x80, CHR 0x86], [CHR 0xE2, CHR 0x80, CHR 0x87],
      [CHR 0xE2, CHR 0x80, CHR 0x88], [CHR 0xE2, CHR 0x80, CHR 0x89],
      [CHR 0xE2, CHR 0x80, CHR 0x8A], [CHR 0xE2, CHR 0x80, CHR 0xA8],
      [CHR 0xE2, CHR 0x80, CHR 0xA9], [CHR 0xE2, CHR 0x80, CHR 0xAF],
      [CHR 0xE2, CHR 0x81, CHR 0x9F], [CHR 0xE3, CHR 0x80, CHR 0x80],
      [CHR 0xEF, CHR 0xBB, CHR 0xBF]]"

definition whitespace_at :: "string \<Rightarrow> nat" where
  "whitespace_at s =
     (case find (\<lambda>w. take (length w) s = w) whitespace of None \<Rightarrow> 0 | Some w \<Rightarrow> length w)"

text \<open>The loop that skips white space, with the length of the string as its bound.\<close>

fun skip_whitespace :: "nat \<Rightarrow> string \<Rightarrow> string" where
  "skip_whitespace 0 s = s"
| "skip_whitespace (Suc k) s =
     (if whitespace_at s = 0 then s else skip_whitespace k (drop (whitespace_at s) s))"

definition trimStart :: "string \<Rightarrow> string" where
  "trimStart s = skip_whitespace (length s) s"

definition digit_value :: "char \<Rightarrow> nat" where
  "digit_value c =
     (let n = (of_char c :: nat)
      in if 48 \<le> n \<and> n \<le> 57 then n - 48
         else if 97 \<le> n \<and> n \<le> 122 then n - 87
         else if 65 \<le> n \<and> n \<le> 90 then n - 55
         else 36)"

definition parseInt :: "string \<Rightarrow> int option" where
  "parseInt s =
     (let t = trimStart s;
          negative = (take 1 t = ''-'');
          u = (if take 1 t = ''-'' \<or> take 1 t = ''+'' then drop 1 t else t);
          hex = (take 2 u = ''0x'' \<or> take 2 u = ''0X'');
          radix = (if hex then 16 else 10);
          v = (if hex then drop 2 u else u);
          ds = takeWhile (\<lambda>c. digit_value c < radix) v
      in if ds = [] then None
         else Some ((if negative then - 1 else 1)
                * int (foldl (\<lambda>a c. a * radix + digit_value c) 0 ds)))"

text \<open>
  A JavaScript number as the parameter of a statement, compared with or written to an
  \<^verbatim>\<open>integer\<close> column: the database refuses \<^verbatim>\<open>NaN\<close> and every number outside the
  32-bit range, and the statement throws.
\<close>

definition integer_param :: "int option \<Rightarrow> db_error + int" where
  "integer_param n =
     (case n of
        None \<Rightarrow> Inl InvalidParameter
      | Some i \<Rightarrow> if - 2147483648 \<le> i \<and> i \<le> 2147483647 then Inr i else Inl InvalidParameter)"

text \<open>
  A value that a handler takes from the parsed JSON body without validating it: absent
  (\<^verbatim>\<open>undefined\<close>), \<^verbatim>\<open>null\<close>, a string, or any other value (a number, a boolean, an
  array, an object). Such a value is given by the three things the server observes of it:
  whether it is truthy, its conversion to a string in a template literal (\<open>None\<close> when the
  conversion throws, as it does for an object whose \<^verbatim>\<open>toString\<close> is not a function),
  and the text that the database driver sends for it.
\<close>

datatype js_value = JsUndefined | JsNull | JsString string | JsOther bool "string option" string

fun truthy :: "js_value \<Rightarrow> bool" where
  "truthy JsUndefined = False"
| "truthy JsNull = False"
| "truthy (JsString s) = (s \<noteq> [])"
| "truthy (JsOther t s p) = t"

fun template :: "js_value \<Rightarrow> string option" where
  "template JsUndefined = Some ''undefined''"
| "template JsNull = Some ''null''"
| "template (JsString s) = Some s"
| "template (JsOther t s p) = s"

text \<open>
  The value as the new content of a nullable text column in drizzle's \<^verbatim>\<open>set\<close>: the key
  is ignored when the value is \<^verbatim>\<open>undefined\<close>, \<^verbatim>\<open>null\<close> writes NULL, anything else
  writes its text. The database refuses a text with a zero byte.
\<close>

fun text_param :: "js_value \<Rightarrow> string upd" where
  "text_param JsUndefined = Undefined"
| "text_param JsNull = Null"
| "text_param (JsString s) = Value s"
| "text_param (JsOther t s p) = Value p"

fun text_refused :: "string upd \<Rightarrow> bool" where
  "text_refused (Value s) = (CHR 0x00 \<in> set s)"
| "text_refused _ = False"

text \<open>
  \<^verbatim>\<open>ORDER BY\<close>: a stable insertion sort under the given order. \<^verbatim>\<open>desc(createdAt)\<close> puts
  NULL first and later timestamps before earlier ones; \<^verbatim>\<open>orderBy(facilities.name)\<close>
  compares names character by character.
\<close>

fun insert_by :: "('a \<Rightarrow> 'a \<Rightarrow> bool) \<Rightarrow> 'a \<Rightarrow> 'a list \<Rightarrow> 'a list" where
  "insert_by le x [] = [x]"
| "insert_by le x (y # ys) = (if le x y then x # y # ys else y # insert_by le x ys)"

definition orderBy :: "('a \<Rightarrow> 'a \<Rightarrow> bool) \<Rightarrow> 'a list \<Rightarrow> 'a list" where
  "orderBy le xs = foldr (insert_by le) xs []"

fun desc :: "timestamp option \<Rightarrow> timestamp option \<Rightarrow> bool" where
  "desc None _ = True"
| "desc (Some a) None = False"
| "desc (Some a) (Some b) = (b \<le> a)"

fun asc_text :: "string \<Rightarrow> string \<Rightarrow> bool" where
  "asc_text [] _ = True"
| "asc_text (x # xs) [] = False"
| "asc_text (x # xs) (y # ys) =
     ((of_char x :: nat) < of_char y \<or> (x = y \<and> asc_text xs ys))"

section \<open>External libraries\<close>

text \<open>
  What the server takes from bcrypt, jsonwebtoken and zod is a parameter of the model:
  \<^verbatim>\<open>bcrypt.hash(p, 10)\<close> and \<^verbatim>\<open>bcrypt.compare\<close>, \<^verbatim>\<open>jwt.sign(payload, JWT_SECRET,
  {expiresIn: "7d"})\<close> and \<^verbatim>\<open>jwt.verify(token, JWT_SECRET)\<close> (\<open>None\<close> when it throws), which
  both read the clock, and zod's \<^verbatim>\<open>z.string().email()\<close> test.
\<close>

record auth_user =
  au_id :: int
  au_email :: string
  au_role :: string

record env =
  bcrypt_hash :: "string \<Rightarrow> string"
  bcrypt_compare :: "string \<Rightarrow> string \<Rightarrow> bool"
  jwt_sign :: "timestamp \<Rightarrow> auth_user \<Rightarrow> string"
  jwt_verify :: "timestamp \<Rightarrow> string \<Rightarrow> auth_user option"
  z_email :: "string \<Rightarrow> bool"

section \<open>Storage (server/storage.ts, class DatabaseStorage)\<close>

text \<open>
  Every method takes the database and returns its result with the database after it. A
  method whose statement the database can refuse returns \<open>Inl\<close> the error it throws.
  \<^verbatim>\<open>const [row] = await ...\<close> is \<open>find\<close>: the first row, or \<^verbatim>\<open>undefined\<close>.
\<close>

subsection \<open>Users\<close>

definition getUser :: "db \<Rightarrow> int \<Rightarrow> user option" where
  "getUser d i = find (\<lambda>u. u_id u = i) (users d)"

definition getUserByEmail :: "db \<Rightarrow> string \<Rightarrow> user option" where
  "getUserByEmail d e = find (\<lambda>u. u_email u = e) (users d)"

definition createUser :: "env \<Rightarrow> timestamp \<Rightarrow> db \<Rightarrow> insert_user \<Rightarrow> (db_error + user) \<times> db" where
  "createUser E now d usr =
     (let hashedPassword = bcrypt_hash E (iu_password usr);
          i = users_id_seq d;
          d1 = d\<lparr>users_id_seq := i + 1\<rparr>
      in if \<exists>u \<in> set (users d). u_email u = iu_email usr then (Inl UniqueViolation, d1)
         else
           let newUser = \<lparr> u_id = i, u_email = iu_email usr, u_password = hashedPassword,
                 u_firstName = iu_firstName usr, u_lastName = iu_lastName usr,
                 u_studentId = iu_studentId usr,
                 u_role = (case iu_role usr of None \<Rightarrow> Student | Some r \<Rightarrow> r),
                 u_createdAt = Some now, u_updatedAt = Some now \<rparr>
           in (Inr newUser, d1\<lparr>users := users d @ [newUser]\<rparr>))"

definition updateUser :: "timestamp \<Rightarrow> db \<Rightarrow> int \<Rightarrow> user_patch \<Rightarrow> user option \<times> db" where
  "updateUser now d i data =
     (let us = map (\<lambda>u. if u_id u = i
                 then u\<lparr>u_firstName := apply_upd (up_firstName data) (u_firstName u),
                        u_lastName := apply_upd (up_lastName data) (u_lastName u),
                        u_studentId := apply_upd (up_studentId data) (u_studentId u),
                        u_updatedAt := Some now\<rparr>
                 else u) (users d)
      in (find (\<lambda>u. u_id u = i) us, d\<lparr>users := us\<rparr>))"

definition updateUserPassword :: "timestamp \<Rightarrow> db \<Rightarrow> int \<Rightarrow> string \<Rightarrow> bool \<times> db" where
  "updateUserPassword now d i hashedPassword =
     (True, d\<lparr>users := map (\<lambda>u. if u_id u = i
                 then u\<lparr>u_password := hashedPassword, u_updatedAt := Some now\<rparr>
                 else u) (users d)\<rparr>)"

definition getAllUsers :: "db \<Rightarrow> user list" where
  "getAllUsers d = orderBy (\<lambda>a b. desc (u_createdAt a) (u_createdAt b)) (users d)"

definition updateUserRole ::
  "timestamp \<Rightarrow> db \<Rightarrow> int option \<Rightarrow> user_role \<Rightarrow> (db_error + user option) \<times> db" where
  "updateUserRole now d num r =
     (case integer_param num of
        Inl err \<Rightarrow> (Inl err, d)
      | Inr i \<Rightarrow>
          let us = map (\<lambda>u. if u_id u = i then u\<lparr>u_role := r, u_updatedAt := Some now\<rparr> else u)
                     (users d)
          in (Inr (find (\<lambda>u. u_id u = i) us), d\<lparr>users := us\<rparr>))"

text \<open>
  A user row that a booking (as owner or reviewer) or a notification references cannot be
  deleted: the foreign keys have no \<^verbatim>\<open>ON DELETE\<close> action.
\<close>

definition user_referenced :: "db \<Rightarrow> int \<Rightarrow> bool" where
  "user_referenced d i \<longleftrightarrow>
     (\<exists>b \<in> set (bookings d). b_userId b = i \<or> b_reviewedBy b = Some i) \<or>
     (\<exists>n \<in> set (notifications d). n_userId n = i)"

definition deleteUser :: "db \<Rightarrow> int option \<Rightarrow> (db_error + bool) \<times> db" where
  "deleteUser d num =
     (case integer_param num of
        Inl err \<Rightarrow> (Inl err, d)
      | Inr i \<Rightarrow>
          if (\<exists>u \<in> set (users d). u_id u = i) \<and> user_referenced d i
          then (Inl ForeignKeyViolation, d)
          else (Inr True, d\<lparr>users := filter (\<lambda>u. u_id u \<noteq> i) (users d)\<rparr>))"

subsection \<open>Facilities\<close>

definition getFacility :: "db \<Rightarrow> int option \<Rightarrow> db_error + facility option" where
  "getFacility d num =
     (case integer_param num of
        Inl err \<Rightarrow> Inl err
      | Inr i \<Rightarrow> Inr (find (\<lambda>f. f_id f = i) (facilities d)))"

definition getAllFacilities :: "db \<Rightarrow> facility list" where
  "getAllFacilities d = orderBy (\<lambda>a b. asc_text (f_name a) (f_name b)) (facilities d)"

definition createFacility :: "timestamp \<Rightarrow> db \<Rightarrow> insert_facility \<Rightarrow> facility \<times> db" where
  "createFacility now d fac =
     (let i = facilities_id_seq d;
          newFacility = \<lparr> f_id = i, f_name = fi_name fac, f_description = fi_description fac,
            f_capacity = fi_capacity fac, f_location = fi_location fac,
            f_status = (case fi_status fac of None \<Rightarrow> Available | Some s \<Rightarrow> s),
            f_amenities = fi_amenities fac, f_imageUrl = fi_imageUrl fac,
            f_createdAt = Some now, f_updatedAt = Some now \<rparr>
      in (newFacility, d\<lparr>facilities_id_seq := i + 1, facilities := facilities d @ [newFacility]\<rparr>))"

definition updateFacility ::
  "timestamp \<Rightarrow> db \<Rightarrow> int option \<Rightarrow> facility_patch \<Rightarrow> (db_error + facility option) \<times> db" where
  "updateFacility now d num data =
     (case integer_param num of
        Inl err \<Rightarrow> (Inl err, d)
      | Inr i \<Rightarrow>
          let fs = map (\<lambda>f. if f_id f = i
                 then f\<lparr>f_name := (case fp_name data of None \<Rightarrow> f_name f | Some n \<Rightarrow> n),
                        f_description := apply_upd (fp_description data) (f_description f),
                        f_capacity := apply_upd (fp_capacity data) (f_capacity f),
                        f_location := apply_upd (fp_location data) (f_location f),
                        f_status := (case fp_status data of None \<Rightarrow> f_status f | Some s \<Rightarrow> s),
                        f_amenities := apply_upd (fp_amenities data) (f_amenities f),
                        f_imageUrl := apply_upd (fp_imageUrl data) (f_imageUrl f),
                        f_updatedAt := Some now\<rparr>
                 else f) (facilities d)
          in (Inr (find (\<lambda>f. f_id f = i) fs), d\<lparr>facilities := fs\<rparr>))"

definition deleteFacility :: "db \<Rightarrow> int option \<Rightarrow> (db_error + bool) \<times> db" where
  "deleteFacility d num =
     (case integer_param num of
        Inl err \<Rightarrow> (Inl err, d)
      | Inr i \<Rightarrow>
          if (\<exists>f \<in> set (facilities d). f_id f = i) \<and> (\<exists>b \<in> set (bookings d). b_facilityId b = i)
          then (Inl ForeignKeyViolation, d)
          else (Inr True, d\<lparr>facilities := filter (\<lambda>f. f_id f \<noteq> i) (facilities d)\<rparr>))"

subsection \<open>Bookings\<close>

text \<open>\<^verbatim>\<open>with: { user: true, facility: true, reviewer: true }\<close>: the related rows, whole.\<close>

definition withRelations :: "db \<Rightarrow> booking \<Rightarrow> booking_with_relations" where
  "withRelations d b = booking.extend b (booking_with_relations.fields
     (getUser d (b_userId b))
     (find (\<lambda>f. f_id f = b_facilityId b) (facilities d))
     (case b_reviewedBy b of None \<Rightarrow> None | Some r \<Rightarrow> getUser d r))"

definition getBooking :: "db \<Rightarrow> int \<Rightarrow> booking_with_relations option" where
  "getBooking d i = map_option (withRelations d) (find (\<lambda>b. b_id b = i) (bookings d))"

definition getAllBookings :: "db \<Rightarrow> booking_with_relations list" where
  "getAllBookings d =
     map (withRelations d) (orderBy (\<lambda>a b. desc (b_createdAt a) (b_createdAt b)) (bookings d))"

definition getUserBookings :: "db \<Rightarrow> int \<Rightarrow> booking_with_relations list" where
  "getUserBookings d userId =
     map (withRelations d)
       (orderBy (\<lambda>a b. desc (b_createdAt a) (b_createdAt b))
          (filter (\<lambda>b. b_userId b = userId) (bookings d)))"

text \<open>
  The insert names only the columns of \<^verbatim>\<open>InsertBooking\<close>; the database fills the others
  with their defaults: the next id, status \<^verbatim>\<open>pending\<close>, NULL review columns, the clock.
\<close>

definition createBooking :: "timestamp \<Rightarrow> db \<Rightarrow> insert_booking \<Rightarrow> (db_error + booking) \<times> db" where
  "createBooking now d bk =
     (let i = bookings_id_seq d;
          d1 = d\<lparr>bookings_id_seq := i + 1\<rparr>
      in if \<not> (\<exists>u \<in> set (users d). u_id u = ib_userId bk) \<or>
            \<not> (\<exists>f \<in> set (facilities d). f_id f = ib_facilityId bk)
         then (Inl ForeignKeyViolation, d1)
         else
           let newBooking = \<lparr> b_id = i, b_userId = ib_userId bk, b_facilityId = ib_facilityId bk,
                 b_eventName = ib_eventName bk, b_eventDescription = ib_eventDescription bk,
                 b_purpose = ib_purpose bk, b_eventDate = ib_eventDate bk,
                 b_startTime = ib_startTime bk, b_endTime = ib_endTime bk,
                 b_attendees = ib_attendees bk, b_equipmentNeeded = ib_equipmentNeeded bk,
                 b_status = Pending, b_adminNotes = None, b_reviewedBy = None,
                 b_reviewedAt = None, b_createdAt = Some now, b_updatedAt = Some now \<rparr>
           in (Inr newBooking, d1\<lparr>bookings := bookings d @ [newBooking]\<rparr>))"

text \<open>
  The \<^verbatim>\<open>set\<close> of \<^verbatim>\<open>updateBookingStatus\<close> on one row. \<^verbatim>\<open>notes\<close> is whatever the handler
  found in the body: \<^verbatim>\<open>adminNotes\<close> stays as it is when the body has no notes, becomes
  NULL for \<^verbatim>\<open>null\<close>, and the text of the value otherwise.
\<close>

definition review :: "timestamp \<Rightarrow> booking_status \<Rightarrow> int \<Rightarrow> js_value \<Rightarrow> booking \<Rightarrow> booking" where
  "review now st adminId notes b =
     b\<lparr>b_status := st, b_reviewedBy := Some adminId, b_reviewedAt := Some now,
       b_adminNotes := apply_upd (text_param notes) (b_adminNotes b),
       b_updatedAt := Some now\<rparr>"

text \<open>
  The statement throws when the database refuses the id or the notes as parameters.
  When no row has the id the update changes nothing and returns \<^verbatim>\<open>undefined\<close>; when one
  has, the new \<^verbatim>\<open>reviewedBy\<close> must reference a user row. (\<^verbatim>\<open>adminId\<close> is the id in a
  token that the server signed: the id of a user row at that time.)
\<close>

definition updateBookingStatus ::
  "timestamp \<Rightarrow> db \<Rightarrow> int option \<Rightarrow> booking_status \<Rightarrow> int \<Rightarrow> js_value
     \<Rightarrow> (db_error + booking option) \<times> db" where
  "updateBookingStatus now d num st adminId notes =
     (case integer_param num of
        Inl err \<Rightarrow> (Inl err, d)
      | Inr i \<Rightarrow>
          if text_refused (text_param notes) then (Inl InvalidParameter, d)
          else if \<not> (\<exists>b \<in> set (bookings d). b_id b = i) then (Inr None, d)
          else if \<not> (\<exists>u \<in> set (users d). u_id u = adminId) then (Inl ForeignKeyViolation, d)
          else
            let bs = map (\<lambda>b. if b_id b = i then review now st adminId notes b else b) (bookings d)
            in (Inr (find (\<lambda>b. b_id b = i) bs), d\<lparr>bookings := bs\<rparr>))"

record booking_stats =
  pending :: nat
  approved :: nat
  rejected :: nat
  total :: nat

definition getBookingStats :: "db \<Rightarrow> booking_stats" where
  "getBookingStats d =
     (let allBookings = bookings d
      in \<lparr> pending = length (filter (\<lambda>b. b_status b = Pending) allBookings),
           approved = length (filter (\<lambda>b. b_status b = Approved) allBookings),
           rejected = length (filter (\<lambda>b. b_status b = Rejected) allBookings),
           total = length allBookings \<rparr>)"

subsection \<open>Notifications\<close>

definition getUserNotifications :: "db \<Rightarrow> int \<Rightarrow> notification list" where
  "getUserNotifications d userId =
     orderBy (\<lambda>a b. desc (n_createdAt a) (n_createdAt b))
       (filter (\<lambda>n. n_userId n = userId) (notifications d))"

definition createNotification ::
  "timestamp \<Rightarrow> db \<Rightarrow> insert_notification \<Rightarrow> (db_error + notification) \<times> db" where
  "createNotification now d ntf =
     (let i = notifications_id_seq d;
          d1 = d\<lparr>notifications_id_seq := i + 1\<rparr>
      in if \<not> (\<exists>u \<in> set (users d). u_id u = in_userId ntf) \<or>
            (case in_relatedBookingId ntf of None \<Rightarrow> False
             | Some r \<Rightarrow> \<not> (\<exists>b \<in> set (bookings d). b_id b = r))
         then (Inl ForeignKeyViolation, d1)
         else
           let newNotification = \<lparr> n_id = i, n_userId = in_userId ntf, n_title = in_title ntf,
                 n_message = in_message ntf,
                 n_type = (case in_type ntf of None \<Rightarrow> ''info'' | Some t \<Rightarrow> t),
                 n_relatedBookingId = in_relatedBookingId ntf, n_status = Unread,
                 n_createdAt = Some now \<rparr>
           in (Inr newNotification, d1\<lparr>notifications := notifications d @ [newNotification]\<rparr>))"

definition markNotificationRead :: "db \<Rightarrow> int option \<Rightarrow> (db_error + bool) \<times> db" where
  "markNotificationRead d num =
     (case integer_param num of
        Inl err \<Rightarrow> (Inl err, d)
      | Inr i \<Rightarrow>
          (Inr True, d\<lparr>notifications := map (\<lambda>n. if n_id n = i then n\<lparr>n_status := Read\<rparr> else n)
                        (notifications d)\<rparr>))"

definition markAllNotificationsRead :: "db \<Rightarrow> int \<Rightarrow> bool \<times> db" where
  "markAllNotificationsRead d userId =
     (True, d\<lparr>notifications := map (\<lambda>n. if n_userId n = userId then n\<lparr>n_status := Read\<rparr> else n)
                 (notifications d)\<rparr>)"

definition getUnreadCount :: "db \<Rightarrow> int \<Rightarrow> nat" where
  "getUnreadCount d userId =
     length (filter (\<lambda>n. n_userId n = userId \<and> n_status n = Unread) (notifications d))"

section \<open>Request bodies and their validation\<close>

text \<open>
  A request body is a JSON object: a map from keys to JSON values, an absent key being
  \<open>None\<close>. Numbers are the integers; every number the handlers read is bound for an
  integer column.
\<close>

datatype json = JNull | JBool bool | JNum int | JStr string
  | JArr "json list" | JObj "(string \<times> json) list"

type_synonym json_object = "string \<rightharpoonup> json"

text \<open>
  The zod validators of \<^verbatim>\<open>shared/schema.ts\<close>. \<^verbatim>\<open>createInsertSchema\<close> gives a string
  column \<^verbatim>\<open>z.string()\<close> (with \<^verbatim>\<open>.max(n)\<close> for \<^verbatim>\<open>varchar(n)\<close>) and an integer
  column \<^verbatim>\<open>z.number()\<close>; a nullable column, or one with a default, may be absent. A zod
  object keeps only the keys of its schema: the parsed value is a record of exactly those.
\<close>

definition z_string :: "json option \<Rightarrow> string option" where
  "z_string v = (case v of Some (JStr s) \<Rightarrow> Some s | _ \<Rightarrow> None)"

definition z_string_max :: "nat \<Rightarrow> json option \<Rightarrow> string option" where
  "z_string_max n v = (case v of Some (JStr s) \<Rightarrow> if length s \<le> n then Some s else None | _ \<Rightarrow> None)"

definition z_string_min :: "nat \<Rightarrow> json option \<Rightarrow> string option" where
  "z_string_min n v = (case v of Some (JStr s) \<Rightarrow> if n \<le> length s then Some s else None | _ \<Rightarrow> None)"

definition z_number :: "json option \<Rightarrow> int option" where
  "z_number v = (case v of Some (JNum n) \<Rightarrow> Some n | _ \<Rightarrow> None)"

definition nullable_optional :: "(json option \<Rightarrow> 'a option) \<Rightarrow> json option \<Rightarrow> 'a option option" where
  "nullable_optional p v =
     (case v of None \<Rightarrow> Some None | Some JNull \<Rightarrow> Some None | _ \<Rightarrow> map_option Some (p v))"

definition optional :: "(json option \<Rightarrow> 'a option) \<Rightarrow> json option \<Rightarrow> 'a option option" where
  "optional p v = (case v of None \<Rightarrow> Some None | _ \<Rightarrow> map_option Some (p v))"

definition role_name :: "user_role \<Rightarrow> string" where
  "role_name r = (case r of Student \<Rightarrow> ''student'' | Faculty \<Rightarrow> ''faculty'' | Admin \<Rightarrow> ''admin'')"

definition role_of_string :: "string \<Rightarrow> user_role option" where
  "role_of_string s =
     (if s = ''student'' then Some Student else if s = ''faculty'' then Some Faculty
      else if s = ''admin'' then Some Admin else None)"

definition z_role :: "json option \<Rightarrow> user_role option" where
  "z_role v = (case v of Some (JStr s) \<Rightarrow> role_of_string s | _ \<Rightarrow> None)"

definition z_facility_status :: "json option \<Rightarrow> facility_status option" where
  "z_facility_status v =
     (case v of Some (JStr s) \<Rightarrow>
        if s = ''available'' then Some Available else if s = ''maintenance'' then Some Maintenance
        else if s = ''closed'' then Some Closed else None
      | _ \<Rightarrow> None)"

text \<open>
  \<^verbatim>\<open>registerSchema = insertUserSchema.extend({email, password, firstName, lastName,
  confirmPassword}).refine(password === confirmPassword)\<close>. The keys \<^verbatim>\<open>studentId\<close> and
  \<^verbatim>\<open>role\<close> come from \<^verbatim>\<open>insertUserSchema\<close> unchanged.
\<close>

record register_data = insert_user +
  confirmPassword :: string

definition registerSchema :: "env \<Rightarrow> json_object \<Rightarrow> register_data option" where
  "registerSchema E body = do {
     email \<leftarrow> z_string (body ''email'');
     password \<leftarrow> z_string_min 6 (body ''password'');
     firstName \<leftarrow> z_string_min 1 (body ''firstName'');
     lastName \<leftarrow> z_string_min 1 (body ''lastName'');
     studentId \<leftarrow> nullable_optional (z_string_max 50) (body ''studentId'');
     role \<leftarrow> optional z_role (body ''role'');
     confirm \<leftarrow> z_string (body ''confirmPassword'');
     if z_email E email \<and> password = confirm
     then Some \<lparr> iu_email = email, iu_password = password, iu_firstName = Some firstName,
            iu_lastName = Some lastName, iu_studentId = studentId, iu_role = role,
            confirmPassword = confirm \<rparr>
     else None
   }"

definition loginSchema :: "env \<Rightarrow> json_object \<Rightarrow> (string \<times> string) option" where
  "loginSchema E body = do {
     email \<leftarrow> z_string (body ''email'');
     password \<leftarrow> z_string_min 6 (body ''password'');
     if z_email E email then Some (email, password) else None
   }"

definition insertBookingSchema :: "json_object \<Rightarrow> insert_booking option" where
  "insertBookingSchema body = do {
     userId \<leftarrow> z_number (body ''userId'');
     facilityId \<leftarrow> z_number (body ''facilityId'');
     eventName \<leftarrow> z_string_max 255 (body ''eventName'');
     eventDescription \<leftarrow> nullable_optional z_string (body ''eventDescription'');
     purpose \<leftarrow> nullable_optional z_string (body ''purpose'');
     eventDate \<leftarrow> z_string (body ''eventDate'');
     startTime \<leftarrow> z_string (body ''startTime'');
     endTime \<leftarrow> z_string (body ''endTime'');
     attendees \<leftarrow> nullable_optional z_number (body ''attendees'');
     equipmentNeeded \<leftarrow> nullable_optional z_string (body ''equipmentNeeded'');
     Some \<lparr> ib_userId = userId, ib_facilityId = facilityId, ib_eventName = eventName,
            ib_eventDescription = eventDescription, ib_purpose = purpose,
            ib_eventDate = eventDate, ib_startTime = startTime, ib_endTime = endTime,
            ib_attendees = attendees, ib_equipmentNeeded = equipmentNeeded \<rparr>
   }"

definition insertFacilitySchema :: "json_object \<Rightarrow> insert_facility option" where
  "insertFacilitySchema body = do {
     name \<leftarrow> z_string_max 255 (body ''name'');
     description \<leftarrow> nullable_optional z_string (body ''description'');
     capacity \<leftarrow> nullable_optional z_number (body ''capacity'');
     location \<leftarrow> nullable_optional (z_string_max 255) (body ''location'');
     status \<leftarrow> optional z_facility_status (body ''status'');
     amenities \<leftarrow> nullable_optional z_string (body ''amenities'');
     imageUrl \<leftarrow> nullable_optional z_string (body ''imageUrl'');
     Some \<lparr> fi_name = name, fi_description = description, fi_capacity = capacity,
            fi_location = location, fi_status = status, fi_amenities = amenities,
            fi_imageUrl = imageUrl \<rparr>
   }"

section \<open>Responses\<close>

text \<open>
  A response is the HTTP status with the JSON body; \<^verbatim>\<open>res.json(x)\<close> alone answers 200.
  \<^verbatim>\<open>const { password, ...userWithoutPassword } = user\<close> keeps every property of the row
  but \<^verbatim>\<open>password\<close>.
\<close>

record user_without_password =
  wp_id :: int
  wp_email :: string
  wp_firstName :: "string option"
  wp_lastName :: "string option"
  wp_studentId :: "string option"
  wp_role :: user_role
  wp_createdAt :: "timestamp option"
  wp_updatedAt :: "timestamp option"

definition withoutPassword :: "user \<Rightarrow> user_without_password" where
  "withoutPassword u = \<lparr> wp_id = u_id u, wp_email = u_email u, wp_firstName = u_firstName u,
     wp_lastName = u_lastName u, wp_studentId = u_studentId u, wp_role = u_role u,
     wp_createdAt = u_createdAt u, wp_updatedAt = u_updatedAt u \<rparr>"

record user_counts =
  uc_total :: nat
  uc_students :: nat
  uc_faculty :: nat
  uc_admins :: nat

record facility_counts =
  fc_total :: nat
  fc_available :: nat
  fc_maintenance :: nat
  fc_closed :: nat

datatype payload =
    Message string
  | ValidationFailed
  | UserAndToken user_without_password string
  | UserOnly user_without_password
  | UserList "user_without_password list"
  | OneFacility facility
  | FacilityList "facility list"
  | OneBooking booking
  | BookingList "booking_with_relations list"
  | BookingStats booking_stats
  | NotificationList "notification list"
  | AdminStats booking_stats user_counts facility_counts

type_synonym response = "nat \<times> payload"

section \<open>Middleware (server/routes.ts)\<close>

text \<open>\<^verbatim>\<open>s.split(" ")\<close>: the pieces of \<open>s\<close> between single spaces; never empty.\<close>

fun js_split :: "char \<Rightarrow> string \<Rightarrow> string list" where
  "js_split c [] = [[]]"
| "js_split c (x # xs) =
     (if x = c then [] # js_split c xs
      else (case js_split c xs of [] \<Rightarrow> [[x]] | w # ws \<Rightarrow> (x # w) # ws))"

text \<open>
  \<^verbatim>\<open>authHeader && authHeader.split(" ")[1]\<close>: \<open>None\<close> is \<^verbatim>\<open>undefined\<close> (no header, or no
  second piece); an empty header gives the empty string.
\<close>

definition bearer :: "string option \<Rightarrow> string option" where
  "bearer authHeader =
     (case authHeader of None \<Rightarrow> None
      | Some h \<Rightarrow> if h = [] then Some []
                  else (case js_split CHR '' '' h of _ # t # _ \<Rightarrow> Some t | _ \<Rightarrow> None))"

definition authenticateToken :: "env \<Rightarrow> timestamp \<Rightarrow> string option \<Rightarrow> response + auth_user" where
  "authenticateToken E now authHeader =
     (case bearer authHeader of
        None \<Rightarrow> Inl (401, Message ''Authentication required'')
      | Some token \<Rightarrow>
          if token = [] then Inl (401, Message ''Authentication required'')
          else (case jwt_verify E now token of
                  Some decoded \<Rightarrow> Inr decoded
                | None \<Rightarrow> Inl (403, Message ''Invalid or expired token'')))"

definition requireAdmin :: "auth_user \<Rightarrow> response + unit" where
  "requireAdmin u =
     (if au_role u \<noteq> ''admin'' then Inl (403, Message ''Admin access required'') else Inr ())"

text \<open>
  The two middleware chains in front of a handler: \<^verbatim>\<open>authenticateToken\<close> alone, and
  \<^verbatim>\<open>authenticateToken, requireAdmin\<close>. A middleware that answers ends the request.
\<close>

definition authenticated ::
  "env \<Rightarrow> timestamp \<Rightarrow> string option \<Rightarrow> db \<Rightarrow> (auth_user \<Rightarrow> response \<times> db) \<Rightarrow> response \<times> db" where
  "authenticated E now authHeader d handler =
     (case authenticateToken E now authHeader of Inl r \<Rightarrow> (r, d) | Inr u \<Rightarrow> handler u)"

definition admin_only ::
  "env \<Rightarrow> timestamp \<Rightarrow> string option \<Rightarrow> db \<Rightarrow> (auth_user \<Rightarrow> response \<times> db) \<Rightarrow> response \<times> db" where
  "admin_only E now authHeader d handler =
     (case authenticateToken E now authHeader of Inl r \<Rightarrow> (r, d)
      | Inr u \<Rightarrow> (case requireAdmin u of Inl r \<Rightarrow> (r, d) | Inr _ \<Rightarrow> handler u))"

definition token_for :: "env \<Rightarrow> timestamp \<Rightarrow> user \<Rightarrow> string" where
  "token_for E now u =
     jwt_sign E now \<lparr> au_id = u_id u, au_email = u_email u, au_role = role_name (u_role u) \<rparr>"

section \<open>Handlers (server/routes.ts, registerRoutes)\<close>

text \<open>
  Each handler takes what it reads of the request (the \<^verbatim>\<open>Authorization\<close> header, the
  \<^verbatim>\<open>:id\<close> segment of the path, the body) and the database, and returns the response
  with the database after it. A body that the handler validates with zod is a JSON
  object; one that it only destructures is the object that the JSON middleware leaves in
  \<^verbatim>\<open>req.body\<close>, given by the fields the handler reads: the notes of a review as the
  JavaScript value they are, the others at the types of the storage method they go to. The \<^verbatim>\<open>catch\<close> of a handler answers 500 with the database as the failed
  statement left it.
\<close>

subsection \<open>Auth routes\<close>

definition post_auth_register :: "env \<Rightarrow> timestamp \<Rightarrow> json_object \<Rightarrow> db \<Rightarrow> response \<times> db" where
  "post_auth_register E now body d =
     (case registerSchema E body of
        None \<Rightarrow> ((400, ValidationFailed), d)
      | Some parsed \<Rightarrow>
          let userData = insert_user.truncate parsed
          in (case getUserByEmail d (iu_email userData) of
                Some existingUser \<Rightarrow> ((400, Message ''Email already registered''), d)
              | None \<Rightarrow>
                  (case createUser E now d userData of
                     (Inl err, d1) \<Rightarrow> ((500, Message ''Registration failed''), d1)
                   | (Inr usr, d1) \<Rightarrow>
                       ((201, UserAndToken (withoutPassword usr) (token_for E now usr)), d1))))"

definition post_auth_login :: "env \<Rightarrow> timestamp \<Rightarrow> json_object \<Rightarrow> db \<Rightarrow> response \<times> db" where
  "post_auth_login E now body d =
     (case loginSchema E body of
        None \<Rightarrow> ((400, ValidationFailed), d)
      | Some (email, pw) \<Rightarrow>
          (case getUserByEmail d email of
             None \<Rightarrow> ((401, Message ''Invalid email or password''), d)
           | Some usr \<Rightarrow>
               if \<not> bcrypt_compare E pw (u_password usr)
               then ((401, Message ''Invalid email or password''), d)
               else ((200, UserAndToken (withoutPassword usr) (token_for E now usr)), d)))"

subsection \<open>User profile routes\<close>

definition patch_users_profile ::
  "env \<Rightarrow> timestamp \<Rightarrow> string option \<Rightarrow> user_patch \<Rightarrow> db \<Rightarrow> response \<times> db" where
  "patch_users_profile E now authHeader body d =
     authenticated E now authHeader d (\<lambda>caller.
       (case updateUser now d (au_id caller) body of
          (None, d1) \<Rightarrow> ((404, Message ''User not found''), d1)
        | (Some updated, d1) \<Rightarrow> ((200, UserOnly (withoutPassword updated)), d1)))"

definition patch_users_password ::
  "env \<Rightarrow> timestamp \<Rightarrow> string option \<Rightarrow> string \<Rightarrow> string \<Rightarrow> db \<Rightarrow> response \<times> db" where
  "patch_users_password E now authHeader currentPassword newPassword d =
     authenticated E now authHeader d (\<lambda>caller.
       (case getUser d (au_id caller) of
          None \<Rightarrow> ((404, Message ''User not found''), d)
        | Some usr \<Rightarrow>
            if \<not> bcrypt_compare E currentPassword (u_password usr)
            then ((400, Message ''Current password is incorrect''), d)
            else
              let hashedPassword = bcrypt_hash E newPassword;
                  (ok, d1) = updateUserPassword now d (au_id caller) hashedPassword
              in ((200, Message ''Password changed successfully''), d1)))"

subsection \<open>Facilities routes\<close>

definition get_facilities :: "db \<Rightarrow> response \<times> db" where
  "get_facilities d = ((200, FacilityList (getAllFacilities d)), d)"

definition get_facility :: "string \<Rightarrow> db \<Rightarrow> response \<times> db" where
  "get_facility pid d =
     (case getFacility d (parseInt pid) of
        Inl err \<Rightarrow> ((500, Message ''Failed to get facility''), d)
      | Inr None \<Rightarrow> ((404, Message ''Facility not found''), d)
      | Inr (Some fac) \<Rightarrow> ((200, OneFacility fac), d))"

subsection \<open>Bookings routes\<close>

definition get_bookings_my :: "env \<Rightarrow> timestamp \<Rightarrow> string option \<Rightarrow> db \<Rightarrow> response \<times> db" where
  "get_bookings_my E now authHeader d =
     authenticated E now authHeader d (\<lambda>caller.
       ((200, BookingList (getUserBookings d (au_id caller))), d))"

text \<open>
  \<^verbatim>\<open>{ ...req.body, userId: req.user!.id }\<close> writes the caller's id over whatever the body
  has under \<^verbatim>\<open>userId\<close>, before validation.
\<close>

definition post_bookings ::
  "env \<Rightarrow> timestamp \<Rightarrow> string option \<Rightarrow> json_object \<Rightarrow> db \<Rightarrow> response \<times> db" where
  \<open>post_bookings E now authHeader body d =
     authenticated E now authHeader d (\<lambda>caller.
       let bookingData = body(''userId'' \<mapsto> JNum (au_id caller))
       in (case insertBookingSchema bookingData of
             None \<Rightarrow> ((400, ValidationFailed), d)
           | Some parsed \<Rightarrow>
               (case createBooking now d parsed of
                  (Inl err, d1) \<Rightarrow> ((500, Message ''Failed to create booking''), d1)
                | (Inr bk, d1) \<Rightarrow>
                    (case createNotification now d1
                            \<lparr> in_userId = au_id caller,
                              in_title = ''Booking Request Submitted'',
                              in_message = ''Your booking request for "'' @ b_eventName bk
                                 @ ''" has been submitted and is pending review.'',
                              in_type = Some ''info'',
                              in_relatedBookingId = Some (b_id bk) \<rparr> of
                       (Inl err, d2) \<Rightarrow> ((500, Message ''Failed to create booking''), d2)
                     | (Inr ntf, d2) \<Rightarrow> ((201, OneBooking bk), d2)))))\<close>

definition get_bookings_stats :: "env \<Rightarrow> timestamp \<Rightarrow> string option \<Rightarrow> db \<Rightarrow> response \<times> db" where
  "get_bookings_stats E now authHeader d =
     authenticated E now authHeader d (\<lambda>caller. ((200, BookingStats (getBookingStats d)), d))"

subsection \<open>Notifications routes\<close>

definition get_notifications :: "env \<Rightarrow> timestamp \<Rightarrow> string option \<Rightarrow> db \<Rightarrow> response \<times> db" where
  "get_notifications E now authHeader d =
     authenticated E now authHeader d (\<lambda>caller.
       ((200, NotificationList (getUserNotifications d (au_id caller))), d))"

definition patch_notification_read ::
  "env \<Rightarrow> timestamp \<Rightarrow> string option \<Rightarrow> string \<Rightarrow> db \<Rightarrow> response \<times> db" where
  "patch_notification_read E now authHeader pid d =
     authenticated E now authHeader d (\<lambda>caller.
       (case markNotificationRead d (parseInt pid) of
          (Inl err, d1) \<Rightarrow> ((500, Message ''Failed to mark notification as read''), d1)
        | (Inr ok, d1) \<Rightarrow> ((200, Message ''Notification marked as read''), d1)))"

definition patch_notifications_read_all ::
  "env \<Rightarrow> timestamp \<Rightarrow> string option \<Rightarrow> db \<Rightarrow> response \<times> db" where
  "patch_notifications_read_all E now authHeader d =
     authenticated E now authHeader d (\<lambda>caller.
       let (ok, d1) = markAllNotificationsRead d (au_id caller)
       in ((200, Message ''All notifications marked as read''), d1))"

subsection \<open>Admin routes\<close>

definition get_admin_bookings :: "env \<Rightarrow> timestamp \<Rightarrow> string option \<Rightarrow> db \<Rightarrow> response \<times> db" where
  "get_admin_bookings E now authHeader d =
     admin_only E now authHeader d (\<lambda>caller. ((200, BookingList (getAllBookings d)), d))"

definition patch_admin_booking_approve ::
  "env \<Rightarrow> timestamp \<Rightarrow> string option \<Rightarrow> string \<Rightarrow> js_value \<Rightarrow> db \<Rightarrow> response \<times> db" where
  \<open>patch_admin_booking_approve E now authHeader pid notes d =
     admin_only E now authHeader d (\<lambda>caller.
       let bookingId = parseInt pid in
       (case updateBookingStatus now d bookingId Approved (au_id caller) notes of
          (Inl err, d1) \<Rightarrow> ((500, Message ''Failed to approve booking''), d1)
        | (Inr None, d1) \<Rightarrow> ((404, Message ''Booking not found''), d1)
        | (Inr (Some updated), d1) \<Rightarrow>
            (case createNotification now d1
                    \<lparr> in_userId = b_userId updated,
                      in_title = ''Booking Approved'',
                      in_message = ''Your booking request for "'' @ b_eventName updated
                         @ ''" has been approved!'',
                      in_type = Some ''success'',
                      in_relatedBookingId = Some (b_id updated) \<rparr> of
               (Inl err, d2) \<Rightarrow> ((500, Message ''Failed to approve booking''), d2)
             | (Inr ntf, d2) \<Rightarrow> ((200, OneBooking updated), d2))))\<close>

text \<open>
  \<^verbatim>\<open>notes ? `Reason: ${notes}` : ""\<close>, evaluated after the update and before the
  notification is created; \<open>None\<close> when the conversion of the notes throws.
\<close>

definition reason :: "js_value \<Rightarrow> string option" where
  "reason notes =
     (if truthy notes then map_option (\<lambda>s. ''Reason: '' @ s) (template notes) else Some [])"

definition patch_admin_booking_reject ::
  "env \<Rightarrow> timestamp \<Rightarrow> string option \<Rightarrow> string \<Rightarrow> js_value \<Rightarrow> db \<Rightarrow> response \<times> db" where
  \<open>patch_admin_booking_reject E now authHeader pid notes d =
     admin_only E now authHeader d (\<lambda>caller.
       let bookingId = parseInt pid in
       (case updateBookingStatus now d bookingId Rejected (au_id caller) notes of
          (Inl err, d1) \<Rightarrow> ((500, Message ''Failed to reject booking''), d1)
        | (Inr None, d1) \<Rightarrow> ((404, Message ''Booking not found''), d1)
        | (Inr (Some updated), d1) \<Rightarrow>
            (case reason notes of
               None \<Rightarrow> ((500, Message ''Failed to reject booking''), d1)
             | Some why \<Rightarrow>
                 (case createNotification now d1
                         \<lparr> in_userId = b_userId updated,
                           in_title = ''Booking Rejected'',
                           in_message = ''Your booking request for "'' @ b_eventName updated
                              @ ''" has been rejected. '' @ why,
                           in_type = Some ''error'',
                           in_relatedBookingId = Some (b_id updated) \<rparr> of
                    (Inl err, d2) \<Rightarrow> ((500, Message ''Failed to reject booking''), d2)
                  | (Inr ntf, d2) \<Rightarrow> ((200, OneBooking updated), d2)))))\<close>

definition get_admin_users :: "env \<Rightarrow> timestamp \<Rightarrow> string option \<Rightarrow> db \<Rightarrow> response \<times> db" where
  "get_admin_users E now authHeader d =
     admin_only E now authHeader d (\<lambda>caller.
       let allUsers = getAllUsers d;
           usersWithoutPasswords = map withoutPassword allUsers
       in ((200, UserList usersWithoutPasswords), d))"

definition patch_admin_user_role ::
  "env \<Rightarrow> timestamp \<Rightarrow> string option \<Rightarrow> string \<Rightarrow> string \<Rightarrow> db \<Rightarrow> response \<times> db" where
  "patch_admin_user_role E now authHeader pid r d =
     admin_only E now authHeader d (\<lambda>caller.
       let userId = parseInt pid in
       (case role_of_string r of
          None \<Rightarrow> ((400, Message ''Invalid role''), d)
        | Some newRole \<Rightarrow>
            (case updateUserRole now d userId newRole of
               (Inl err, d1) \<Rightarrow> ((500, Message ''Failed to update user role''), d1)
             | (Inr None, d1) \<Rightarrow> ((404, Message ''User not found''), d1)
             | (Inr (Some updated), d1) \<Rightarrow> ((200, UserOnly (withoutPassword updated)), d1))))"

definition delete_admin_user ::
  "env \<Rightarrow> timestamp \<Rightarrow> string option \<Rightarrow> string \<Rightarrow> db \<Rightarrow> response \<times> db" where
  "delete_admin_user E now authHeader pid d =
     admin_only E now authHeader d (\<lambda>caller.
       let userId = parseInt pid in
       if userId = Some (au_id caller) then ((400, Message ''Cannot delete your own account''), d)
       else (case deleteUser d userId of
               (Inl err, d1) \<Rightarrow> ((500, Message ''Failed to delete user''), d1)
             | (Inr ok, d1) \<Rightarrow> ((200, Message ''User deleted successfully''), d1)))"

subsection \<open>Admin facility routes\<close>

definition post_admin_facilities ::
  "env \<Rightarrow> timestamp \<Rightarrow> string option \<Rightarrow> json_object \<Rightarrow> db \<Rightarrow> response \<times> db" where
  "post_admin_facilities E now authHeader body d =
     admin_only E now authHeader d (\<lambda>caller.
       (case insertFacilitySchema body of
          None \<Rightarrow> ((400, ValidationFailed), d)
        | Some parsed \<Rightarrow>
            let (fac, d1) = createFacility now d parsed in ((201, OneFacility fac), d1)))"

definition patch_admin_facility ::
  "env \<Rightarrow> timestamp \<Rightarrow> string option \<Rightarrow> string \<Rightarrow> facility_patch \<Rightarrow> db \<Rightarrow> response \<times> db" where
  "patch_admin_facility E now authHeader pid body d =
     admin_only E now authHeader d (\<lambda>caller.
       let facilityId = parseInt pid in
       (case updateFacility now d facilityId body of
          (Inl err, d1) \<Rightarrow> ((500, Message ''Failed to update facility''), d1)
        | (Inr None, d1) \<Rightarrow> ((404, Message ''Facility not found''), d1)
        | (Inr (Some updated), d1) \<Rightarrow> ((200, OneFacility updated), d1)))"

definition delete_admin_facility ::
  "env \<Rightarrow> timestamp \<Rightarrow> string option \<Rightarrow> string \<Rightarrow> db \<Rightarrow> response \<times> db" where
  "delete_admin_facility E now authHeader pid d =
     admin_only E now authHeader d (\<lambda>caller.
       let facilityId = parseInt pid in
       (case deleteFacility d facilityId of
          (Inl err, d1) \<Rightarrow> ((500, Message ''Failed to delete facility''), d1)
        | (Inr ok, d1) \<Rightarrow> ((200, Message ''Facility deleted successfully''), d1)))"

subsection \<open>Admin reports\<close>

definition get_admin_stats :: "env \<Rightarrow> timestamp \<Rightarrow> string option \<Rightarrow> db \<Rightarrow> response \<times> db" where
  "get_admin_stats E now authHeader d =
     admin_only E now authHeader d (\<lambda>caller.
       let bookingStats = getBookingStats d;
           allUsers = getAllUsers d;
           allFacilities = getAllFacilities d
       in ((200, AdminStats bookingStats
              \<lparr> uc_total = length allUsers,
                uc_students = length (filter (\<lambda>u. u_role u = Student) allUsers),
                uc_faculty = length (filter (\<lambda>u. u_role u = Faculty) allUsers),
                uc_admins = length (filter (\<lambda>u. u_role u = Admin) allUsers) \<rparr>
              \<lparr> fc_total = length allFacilities,
                fc_available = length (filter (\<lambda>f. f_status f = Available) allFacilities),
                fc_maintenance = length (filter (\<lambda>f. f_status f = Maintenance) allFacilities),
                fc_closed = length (filter (\<lambda>f. f_status f = Closed) allFacilities) \<rparr>), d))"

section \<open>The routing table and the API as a whole\<close>

text \<open>
  \<^verbatim>\<open>registerRoutes\<close> registers twenty-two routes, here in its order. A path is the list
  of its segments, decoded; \<^verbatim>\<open>:id\<close> matches any one non-empty segment, which the
  handler receives as \<^verbatim>\<open>req.params.id\<close>. \<open>None\<close>: no route of \<^verbatim>\<open>routes.ts\<close> takes the
  request. Paths are matched as \<^verbatim>\<open>routes.ts\<close> writes them; whether the application also
  takes them in other letter case or with a slash at the end is a setting of the Express
  application, which is created elsewhere.
\<close>

datatype http_method = GET | POST | PUT | PATCH | DELETE

datatype endpoint =
    PostAuthRegister | PostAuthLogin | PatchUsersProfile | PatchUsersPassword
  | GetFacilities | GetFacility string | GetBookingsMy | PostBookings | GetBookingsStats
  | GetNotifications | PatchNotificationRead string | PatchNotificationsReadAll
  | GetAdminBookings | PatchAdminBookingApprove string | PatchAdminBookingReject string
  | GetAdminUsers | PatchAdminUserRole string | DeleteAdminUser string
  | PostAdminFacilities | PatchAdminFacility string | DeleteAdminFacility string
  | GetAdminStats

definition route :: "http_method \<Rightarrow> string list \<Rightarrow> endpoint option" where
  "route m p =
    (if m = POST \<and> p = [''api'', ''auth'', ''register''] then Some PostAuthRegister
     else if m = POST \<and> p = [''api'', ''auth'', ''login''] then Some PostAuthLogin
     else if m = PATCH \<and> p = [''api'', ''users'', ''profile''] then Some PatchUsersProfile
     else if m = PATCH \<and> p = [''api'', ''users'', ''password''] then Some PatchUsersPassword
     else if m = GET \<and> p = [''api'', ''facilities''] then Some GetFacilities
     else if m = GET \<and> (case p of [a, b, i] \<Rightarrow> a = ''api'' \<and> b = ''facilities'' \<and> i \<noteq> [] | _ \<Rightarrow> False)
       then Some (GetFacility (p ! 2))
     else if m = GET \<and> p = [''api'', ''bookings'', ''my''] then Some GetBookingsMy
     else if m = POST \<and> p = [''api'', ''bookings''] then Some PostBookings
     else if m = GET \<and> p = [''api'', ''bookings'', ''stats''] then Some GetBookingsStats
     else if m = GET \<and> p = [''api'', ''notifications''] then Some GetNotifications
     else if m = PATCH \<and> (case p of [a, b, i, c] \<Rightarrow>
                 a = ''api'' \<and> b = ''notifications'' \<and> i \<noteq> [] \<and> c = ''read'' | _ \<Rightarrow> False)
       then Some (PatchNotificationRead (p ! 2))
     else if m = PATCH \<and> p = [''api'', ''notifications'', ''read-all'']
       then Some PatchNotificationsReadAll
     else if m = GET \<and> p = [''api'', ''admin'', ''bookings''] then Some GetAdminBookings
     else if m = PATCH \<and> (case p of [a, b, c, i, e] \<Rightarrow>
                 a = ''api'' \<and> b = ''admin'' \<and> c = ''bookings'' \<and> i \<noteq> [] \<and> e = ''approve''
               | _ \<Rightarrow> False)
       then Some (PatchAdminBookingApprove (p ! 3))
     else if m = PATCH \<and> (case p of [a, b, c, i, e] \<Rightarrow>
                 a = ''api'' \<and> b = ''admin'' \<and> c = ''bookings'' \<and> i \<noteq> [] \<and> e = ''reject''
               | _ \<Rightarrow> False)
       then Some (PatchAdminBookingReject (p ! 3))
     else if m = GET \<and> p = [''api'', ''admin'', ''users''] then Some GetAdminUsers
     else if m = PATCH \<and> (case p of [a, b, c, i, e] \<Rightarrow>
                 a = ''api'' \<and> b = ''admin'' \<and> c = ''users'' \<and> i \<noteq> [] \<and> e = ''role''
               | _ \<Rightarrow> False)
       then Some (PatchAdminUserRole (p ! 3))
     else if m = DELETE \<and> (case p of [a, b, c, i] \<Rightarrow>
                 a = ''api'' \<and> b = ''admin'' \<and> c = ''users'' \<and> i \<noteq> [] | _ \<Rightarrow> False)
       then Some (DeleteAdminUser (p ! 3))
     else if m = POST \<and> p = [''api'', ''admin'', ''facilities''] then Some PostAdminFacilities
     else if m = PATCH \<and> (case p of [a, b, c, i] \<Rightarrow>
                 a = ''api'' \<and> b = ''admin'' \<and> c = ''facilities'' \<and> i \<noteq> [] | _ \<Rightarrow> False)
       then Some (PatchAdminFacility (p ! 3))
     else if m = DELETE \<and> (case p of [a, b, c, i] \<Rightarrow>
                 a = ''api'' \<and> b = ''admin'' \<and> c = ''facilities'' \<and> i \<noteq> [] | _ \<Rightarrow> False)
       then Some (DeleteAdminFacility (p ! 3))
     else if m = GET \<and> p = [''api'', ''admin'', ''stats''] then Some GetAdminStats
     else None)"

text \<open>
  A request, as far as the handlers read it: method and path, the \<^verbatim>\<open>Authorization\<close>
  header, the JSON body for the handlers that validate it, and the body's fields for the
  handlers that only destructure it: \<^verbatim>\<open>notes\<close> as the value it is, the others at the
  types of the storage methods they go to (\<^verbatim>\<open>role\<close>, the two passwords, the profile and
  the facility fields).
\<close>

record request =
  rq_method :: http_method
  rq_path :: "string list"
  rq_authorization :: "string option"
  rq_body :: json_object
  rq_notes :: js_value
  rq_role :: string
  rq_currentPassword :: string
  rq_newPassword :: string
  rq_profile :: user_patch
  rq_facility :: facility_patch

definition handle :: "env \<Rightarrow> timestamp \<Rightarrow> endpoint \<Rightarrow> request \<Rightarrow> db \<Rightarrow> response \<times> db" where
  "handle E now ep rq d =
     (let h = rq_authorization rq in
      case ep of
        PostAuthRegister \<Rightarrow> post_auth_register E now (rq_body rq) d
      | PostAuthLogin \<Rightarrow> post_auth_login E now (rq_body rq) d
      | PatchUsersProfile \<Rightarrow> patch_users_profile E now h (rq_profile rq) d
      | PatchUsersPassword \<Rightarrow>
          patch_users_password E now h (rq_currentPassword rq) (rq_newPassword rq) d
      | GetFacilities \<Rightarrow> get_facilities d
      | GetFacility pid \<Rightarrow> get_facility pid d
      | GetBookingsMy \<Rightarrow> get_bookings_my E now h d
      | PostBookings \<Rightarrow> post_bookings E now h (rq_body rq) d
      | GetBookingsStats \<Rightarrow> get_bookings_stats E now h d
      | GetNotifications \<Rightarrow> get_notifications E now h d
      | PatchNotificationRead pid \<Rightarrow> patch_notification_read E now h pid d
      | PatchNotificationsReadAll \<Rightarrow> patch_notifications_read_all E now h d
      | GetAdminBookings \<Rightarrow> get_admin_bookings E now h d
      | PatchAdminBookingApprove pid \<Rightarrow> patch_admin_booking_approve E now h pid (rq_notes rq) d
      | PatchAdminBookingReject pid \<Rightarrow> patch_admin_booking_reject E now h pid (rq_notes rq) d
      | GetAdminUsers \<Rightarrow> get_admin_users E now h d
      | PatchAdminUserRole pid \<Rightarrow> patch_admin_user_role E now h pid (rq_role rq) d
      | DeleteAdminUser pid \<Rightarrow> delete_admin_user E now h pid d
      | PostAdminFacilities \<Rightarrow> post_admin_facilities E now h (rq_body rq) d
      | PatchAdminFacility pid \<Rightarrow> patch_admin_facility E now h pid (rq_facility rq) d
      | DeleteAdminFacility pid \<Rightarrow> delete_admin_facility E now h pid d
      | GetAdminStats \<Rightarrow> get_admin_stats E now h d)"

text \<open>
  The server on a request: the handler of the route that takes it runs, or no route of
  \<^verbatim>\<open>routes.ts\<close> takes it (no response from these handlers, \<open>None\<close>) and the database
  stays as it is.
\<close>

definition serve :: "env \<Rightarrow> timestamp \<Rightarrow> request \<Rightarrow> db \<Rightarrow> response option \<times> db" where
  "serve E now rq d =
     (case route (rq_method rq) (rq_path rq) of
        None \<Rightarrow> (None, d)
      | Some ep \<Rightarrow> (let (r, d1) = handle E now ep rq d in (Some r, d1)))"

text \<open>The states of the database that requests reach from the empty one.\<close>

inductive reachable :: "env \<Rightarrow> db \<Rightarrow> bool" for E :: env where
  reachable_empty: "reachable E empty_db"
| reachable_serve: "reachable E d \<Longrightarrow> serve E now rq d = (r, d1) \<Longrightarrow> reachable E d1"

section \<open>A test double and sample data\<close>

text \<open>
  A concrete environment for running the model: the hash prefixes the password, a token
  is the role and email of its bearer, and three tokens verify: the one of the student
  Ana (user 1) and those of the administrators Ben (user 2) and Cal (user 3).
\<close>

definition env0 :: env where
  "env0 = \<lparr> bcrypt_hash = (\<lambda>p. ''$2b$10$'' @ p),
            bcrypt_compare = (\<lambda>p h. h = ''$2b$10$'' @ p),
            jwt_sign = (\<lambda>t u. au_role u @ ''.'' @ au_email u),
            jwt_verify = (\<lambda>t tok.
               if tok = ''student.ana@campus.edu''
               then Some \<lparr> au_id = 1, au_email = ''ana@campus.edu'', au_role = ''student'' \<rparr>
               else if tok = ''admin.ben@campus.edu''
               then Some \<lparr> au_id = 2, au_email = ''ben@campus.edu'', au_role = ''admin'' \<rparr>
               else if tok = ''admin.cal@campus.edu''
               then Some \<lparr> au_id = 3, au_email = ''cal@campus.edu'', au_role = ''admin'' \<rparr>
               else None),
            z_email = (\<lambda>s. CHR ''@'' \<in> set s) \<rparr>"

definition ana_header :: "string option" where
  "ana_header = Some ''Bearer student.ana@campus.edu''"

definition ben_header :: "string option" where
  "ben_header = Some ''Bearer admin.ben@campus.edu''"

definition cal_header :: "string option" where
  "cal_header = Some ''Bearer admin.cal@campus.edu''"

definition ana :: user where
  "ana = \<lparr> u_id = 1, u_email = ''ana@campus.edu'', u_password = ''$2b$10$secret1'',
     u_firstName = Some ''Ana'', u_lastName = Some ''Cruz'', u_studentId = None,
     u_role = Student, u_createdAt = Some 1, u_updatedAt = Some 1 \<rparr>"

definition ben :: user where
  "ben = \<lparr> u_id = 2, u_email = ''ben@campus.edu'', u_password = ''$2b$10$secret2'',
     u_firstName = Some ''Ben'', u_lastName = Some ''Diaz'', u_studentId = None,
     u_role = Admin, u_createdAt = Some 2, u_updatedAt = Some 2 \<rparr>"

definition cal :: user where
  "cal = \<lparr> u_id = 3, u_email = ''cal@campus.edu'', u_password = ''$2b$10$secret3'',
     u_firstName = Some ''Cal'', u_lastName = Some ''Esteban'', u_studentId = None,
     u_role = Admin, u_createdAt = Some 5, u_updatedAt = Some 5 \<rparr>"

definition gym :: facility where
  "gym = \<lparr> f_id = 1, f_name = ''Gym'', f_description = None, f_capacity = None,
     f_location = None, f_status = Available, f_amenities = None, f_imageUrl = None,
     f_createdAt = Some 3, f_updatedAt = Some 3 \<rparr>"

definition finals :: booking where
  "finals = \<lparr> b_id = 1, b_userId = 1, b_facilityId = 1, b_eventName = ''Finals'',
     b_eventDescription = None, b_purpose = None, b_eventDate = ''2025-01-15'',
     b_startTime = ''10:00'', b_endTime = ''12:00'', b_attendees = None,
     b_equipmentNeeded = None, b_status = Pending, b_adminNotes = None,
     b_reviewedBy = None, b_reviewedAt = None, b_createdAt = Some 4, b_updatedAt = Some 4 \<rparr>"

definition notice_submitted :: notification where
  \<open>notice_submitted = \<lparr> n_id = 1, n_userId = 1, n_title = ''Booking Request Submitted'',
     n_message = ''Your booking request for "Finals" has been submitted and is pending review.'',
     n_type = ''info'', n_relatedBookingId = Some 1, n_status = Unread,
     n_createdAt = Some 4 \<rparr>\<close>

text \<open>Ana registered; then Ben, as administrator.\<close>

definition db_ana :: db where
  "db_ana = empty_db\<lparr> users := [ana], users_id_seq := 2 \<rparr>"

definition db_staff :: db where
  "db_staff = empty_db\<lparr> users := [ana, ben], users_id_seq := 3 \<rparr>"

text \<open>Ana and Ben registered, Ben opened the gym: no booking yet.\<close>

definition db_open :: db where
  "db_open = \<lparr> users = [ana, ben], facilities = [gym], bookings = [], notifications = [],
     users_id_seq = 3, facilities_id_seq = 2, bookings_id_seq = 1, notifications_id_seq = 1 \<rparr>"

text \<open>Ana has asked for the gym: booking 1 is pending.\<close>

definition db_pending :: db where
  "db_pending = db_open\<lparr> bookings := [finals], notifications := [notice_submitted],
     bookings_id_seq := 2, notifications_id_seq := 2 \<rparr>"

text \<open>A request with nothing in it; the sample requests fill it in.\<close>

definition rq0 :: request where
  "rq0 = \<lparr> rq_method = GET, rq_path = [], rq_authorization = None,
     rq_body = Map.empty, rq_notes = JsUndefined, rq_role = [], rq_currentPassword = [],
     rq_newPassword = [],
     rq_profile = \<lparr> up_firstName = Undefined, up_lastName = Undefined, up_studentId = Undefined \<rparr>,
     rq_facility = \<lparr> fp_name = None, fp_description = Undefined, fp_capacity = Undefined,
       fp_location = Undefined, fp_status = None, fp_amenities = Undefined,
       fp_imageUrl = Undefined \<rparr> \<rparr>"

text \<open>Ana's booking request; its body also names another owner and a status.\<close>

definition finals_body :: json_object where
  "finals_body = [''userId'' \<mapsto> JNum 2, ''status'' \<mapsto> JStr ''approved'',
     ''facilityId'' \<mapsto> JNum 1, ''eventName'' \<mapsto> JStr ''Finals'',
     ''eventDate'' \<mapsto> JStr ''2025-01-15'', ''startTime'' \<mapsto> JStr ''10:00'',
     ''endTime'' \<mapsto> JStr ''12:00'']"

text \<open>Ben has approved booking 1 with the note \<open>ok\<close>.\<close>

definition finals_approved :: booking where
  "finals_approved = finals\<lparr> b_status := Approved, b_adminNotes := Some ''ok'',
     b_reviewedBy := Some 2, b_reviewedAt := Some 5, b_updatedAt := Some 5 \<rparr>"

definition notice_approved :: notification where
  \<open>notice_approved = \<lparr> n_id = 2, n_userId = 1, n_title = ''Booking Approved'',
     n_message = ''Your booking request for "Finals" has been approved!'',
     n_type = ''success'', n_relatedBookingId = Some 1, n_status = Unread,
     n_createdAt = Some 5 \<rparr>\<close>

definition db_approved :: db where
  "db_approved = db_pending\<lparr> bookings := [finals_approved],
     notifications := [notice_submitted, notice_approved], notifications_id_seq := 3 \<rparr>"

text \<open>Ben has then rejected booking 1, at 6 and without notes.\<close>

definition finals_rejected :: booking where
  "finals_rejected = finals_approved\<lparr> b_status := Rejected, b_reviewedAt := Some 6,
     b_updatedAt := Some 6 \<rparr>"

definition notice_rejected :: notification where
  \<open>notice_rejected = \<lparr> n_id = 3, n_userId = 1, n_title = ''Booking Rejected'',
     n_message = ''Your booking request for "Finals" has been rejected. '',
     n_type = ''error'', n_relatedBookingId = Some 1, n_status = Unread,
     n_createdAt = Some 6 \<rparr>\<close>

definition db_rejected :: db where
  "db_rejected = db_approved\<lparr> bookings := [finals_rejected],
     notifications := [notice_submitted, notice_approved, notice_rejected],
     notifications_id_seq := 4 \<rparr>"

text \<open>The five requests that lead from the empty database to \<open>db_approved\<close>.\<close>

definition rq_register_ana :: request where
  "rq_register_ana = rq0\<lparr> rq_method := POST, rq_path := [''api'', ''auth'', ''register''],
     rq_body := [''email'' \<mapsto> JStr ''ana@campus.edu'', ''password'' \<mapsto> JStr ''secret1'',
       ''confirmPassword'' \<mapsto> JStr ''secret1'', ''firstName'' \<mapsto> JStr ''Ana'',
       ''lastName'' \<mapsto> JStr ''Cruz''] \<rparr>"

definition rq_register_ben :: request where
  "rq_register_ben = rq0\<lparr> rq_method := POST, rq_path := [''api'', ''auth'', ''register''],
     rq_body := [''email'' \<mapsto> JStr ''ben@campus.edu'', ''password'' \<mapsto> JStr ''secret2'',
       ''confirmPassword'' \<mapsto> JStr ''secret2'', ''firstName'' \<mapsto> JStr ''Ben'',
       ''lastName'' \<mapsto> JStr ''Diaz'', ''role'' \<mapsto> JStr ''admin''] \<rparr>"

definition rq_open_gym :: request where
  "rq_open_gym = rq0\<lparr> rq_method := POST, rq_path := [''api'', ''admin'', ''facilities''],
     rq_authorization := ben_header, rq_body := [''name'' \<mapsto> JStr ''Gym''] \<rparr>"

definition rq_book :: request where
  "rq_book = rq0\<lparr> rq_method := POST, rq_path := [''api'', ''bookings''],
     rq_authorization := ana_header, rq_body := finals_body \<rparr>"

definition rq_approve :: request where
  "rq_approve = rq0\<lparr> rq_method := PATCH,
     rq_path := [''api'', ''admin'', ''bookings'', ''1'', ''approve''],
     rq_authorization := ben_header, rq_notes := JsString ''ok'' \<rparr>"

text \<open>
  Another course of events after Ana's request: a second administrator, Cal, registers
  (at 5) and approves booking 1 with the note \<open>ok\<close> (at 6); then Cal deletes Ben's
  account (at 7). Ben's token still verifies.
\<close>

definition db_cal :: db where
  "db_cal = db_pending\<lparr> users := [ana, ben, cal], users_id_seq := 4 \<rparr>"

definition finals_cal :: booking where
  "finals_cal = finals\<lparr> b_status := Approved, b_adminNotes := Some ''ok'',
     b_reviewedBy := Some 3, b_reviewedAt := Some 6, b_updatedAt := Some 6 \<rparr>"

definition notice_cal :: notification where
  \<open>notice_cal = \<lparr> n_id = 2, n_userId = 1, n_title = ''Booking Approved'',
     n_message = ''Your booking request for "Finals" has been approved!'',
     n_type = ''success'', n_relatedBookingId = Some 1, n_status = Unread,
     n_createdAt = Some 6 \<rparr>\<close>

definition db_cal_approved :: db where
  "db_cal_approved = db_cal\<lparr> bookings := [finals_cal],
     notifications := [notice_submitted, notice_cal], notifications_id_seq := 3 \<rparr>"

definition db_ben_gone :: db where
  "db_ben_gone = db_cal_approved\<lparr> users := [ana, cal] \<rparr>"

definition rq_register_cal :: request where
  "rq_register_cal = rq0\<lparr> rq_method := POST, rq_path := [''api'', ''auth'', ''register''],
     rq_body := [''email'' \<mapsto> JStr ''cal@campus.edu'', ''password'' \<mapsto> JStr ''secret3'',
       ''confirmPassword'' \<mapsto> JStr ''secret3'', ''firstName'' \<mapsto> JStr ''Cal'',
       ''lastName'' \<mapsto> JStr ''Esteban'', ''role'' \<mapsto> JStr ''admin''] \<rparr>"

definition rq_cal_approves :: request where
  "rq_cal_approves = rq0\<lparr> rq_method := PATCH,
     rq_path := [''api'', ''admin'', ''bookings'', ''1'', ''approve''],
     rq_authorization := cal_header, rq_notes := JsString ''ok'' \<rparr>"

definition rq_cal_deletes_ben :: request where
  "rq_cal_deletes_ben = rq0\<lparr> rq_method := DELETE,
     rq_path := [''api'', ''admin'', ''users'', ''2''], rq_authorization := cal_header \<rparr>"

text \<open>Ana asks to delete her booking, and to list her bookings.\<close>

definition rq_delete :: request where
  "rq_delete = rq0\<lparr> rq_method := DELETE, rq_path := [''api'', ''bookings'', ''1''],
     rq_authorization := ana_header \<rparr>"

definition rq_my_bookings :: request where
  "rq_my_bookings = rq0\<lparr> rq_method := GET, rq_path := [''api'', ''bookings'', ''my''],
     rq_authorization := ana_header \<rparr>"

text \<open>A second registration under Ana's email.\<close>

definition ana_again :: json_object where
  "ana_again = [''email'' \<mapsto> JStr ''ana@campus.edu'', ''password'' \<mapsto> JStr ''another'',
     ''confirmPassword'' \<mapsto> JStr ''another'', ''firstName'' \<mapsto> JStr ''Anna'',
     ''lastName'' \<mapsto> JStr ''Cruz'']"

section \<open>Properties of bookings\<close>

text \<open>
  The review columns agree with the status: the status is one of the three, and the
  reviewer and the review timestamp are each NULL exactly when the status is pending.
\<close>

definition review_consistent :: "booking \<Rightarrow> bool" where
  "review_consistent b \<longleftrightarrow>
     b_status b \<in> {Pending, Approved, Rejected} \<and>
     (b_reviewedBy b = None \<longleftrightarrow> b_status b = Pending) \<and>
     (b_reviewedAt b = None \<longleftrightarrow> b_status b = Pending)"

text \<open>
  The notes that a review leaves in a booking whose notes were \<open>stored\<close>: the stored ones
  when the call has no notes, none when its notes are \<^verbatim>\<open>null\<close>, the string when they are
  a string (the empty one included), the driver's text of any other value.
\<close>

fun notes_after :: "js_value \<Rightarrow> string option \<Rightarrow> string option" where
  "notes_after JsUndefined stored = stored"
| "notes_after JsNull stored = None"
| "notes_after (JsString s) stored = Some s"
| "notes_after (JsOther t s p) stored = Some p"

text \<open>The database takes the notes: their text has no zero byte.\<close>

fun storable :: "js_value \<Rightarrow> bool" where
  "storable (JsString s) = (CHR 0x00 \<notin> set s)"
| "storable (JsOther t s p) = (CHR 0x00 \<notin> set p)"
| "storable _ = True"

text \<open>
  A review of \<open>old\<close> gave \<open>new\<close>: the status, the reviewer and the review timestamp are
  the call's, the notes are those that the call leaves, and every other column but
  \<^verbatim>\<open>updatedAt\<close> is as it was.
\<close>

definition reviewed_as ::
  "booking_status \<Rightarrow> int \<Rightarrow> timestamp \<Rightarrow> js_value \<Rightarrow> booking \<Rightarrow> booking \<Rightarrow> bool" where
  "reviewed_as st adminId now notes old new \<longleftrightarrow>
     b_status new = st \<and> b_reviewedBy new = Some adminId \<and> b_reviewedAt new = Some now \<and>
     b_adminNotes new = notes_after notes (b_adminNotes old) \<and>
     b_updatedAt new = Some now \<and>
     new\<lparr> b_status := b_status old, b_adminNotes := b_adminNotes old,
          b_reviewedBy := b_reviewedBy old, b_reviewedAt := b_reviewedAt old,
          b_updatedAt := b_updatedAt old \<rparr> = old"

text \<open>
  The database after a review of the bookings with id \<open>i\<close> that notified with \<open>n\<close>: those
  bookings are reviewed and the others untouched, \<open>n\<close> is the one new notification, unread,
  for the owner of \<open>old\<close> and about booking \<open>i\<close>; users and facilities are as they were.
\<close>

definition review_stored ::
  "booking_status \<Rightarrow> int \<Rightarrow> timestamp \<Rightarrow> js_value \<Rightarrow> int \<Rightarrow> booking \<Rightarrow> notification
     \<Rightarrow> db \<Rightarrow> db \<Rightarrow> bool" where
  "review_stored st adminId now notes i old n d d1 \<longleftrightarrow>
     list_all2 (\<lambda>b b1. if b_id b = i then reviewed_as st adminId now notes b b1 else b1 = b)
       (bookings d) (bookings d1) \<and>
     notifications d1 = notifications d @ [n] \<and>
     n_userId n = b_userId old \<and> n_relatedBookingId n = Some i \<and> n_status n = Unread \<and>
     users d1 = users d \<and> facilities d1 = facilities d"

text \<open>
  What one request can do to the bookings table: nothing, add a pending booking with
  NULL review columns at the end, or review the bookings of one id with a status that is
  not pending.
\<close>

definition bookings_effect :: "timestamp \<Rightarrow> booking list \<Rightarrow> booking list \<Rightarrow> bool" where
  "bookings_effect now bs bs1 \<longleftrightarrow>
     bs1 = bs \<or>
     (\<exists>bk. bs1 = bs @ [bk] \<and> b_status bk = Pending \<and> b_reviewedBy bk = None
        \<and> b_reviewedAt bk = None) \<or>
     (\<exists>i st a notes. st \<noteq> Pending \<and>
        bs1 = map (\<lambda>b. if b_id b = i then review now st a notes b else b) bs)"

text \<open>
  The foreign key of the owner holds: every booking's \<^verbatim>\<open>userId\<close> is the id of a user
  row.
\<close>

definition owners_exist :: "db \<Rightarrow> bool" where
  "owners_exist d \<longleftrightarrow> b_userId ` set (bookings d) \<subseteq> u_id ` set (users d)"

text \<open>
  Two rows are the same request: they agree on every column that a user supplies when
  asking for a booking, and on the id and the creation time.
\<close>

definition same_request :: "booking \<Rightarrow> booking \<Rightarrow> bool" where
  "same_request b b1 \<longleftrightarrow>
     b_id b1 = b_id b \<and> b_userId b1 = b_userId b \<and> b_facilityId b1 = b_facilityId b \<and>
     b_eventName b1 = b_eventName b \<and> b_eventDescription b1 = b_eventDescription b \<and>
     b_purpose b1 = b_purpose b \<and> b_eventDate b1 = b_eventDate b \<and>
     b_startTime b1 = b_startTime b \<and> b_endTime b1 = b_endTime b \<and>
     b_attendees b1 = b_attendees b \<and> b_equipmentNeeded b1 = b_equipmentNeeded b \<and>
     b_createdAt b1 = b_createdAt b"


section \<open>The id of the path\<close>

text \<open>The loop that skips white space ends within its bound: none is left at the start.\<close>

lemma whitespace_at_Nil: "whitespace_at [] = 0"
  by (simp add: whitespace_at_def whitespace_def)

lemma whitespace_at_le: "whitespace_at s \<le> length s"
proof (cases "find (\<lambda>w. take (length w) s = w) whitespace")
  case None
  then show ?thesis by (simp add: whitespace_at_def)
next
  case (Some w)
  then have "take (length w) s = w" by (auto simp: find_Some_iff)
  then have "length (take (length w) s) = length w" by simp
  then have "length w \<le> length s" by simp
  with Some show ?thesis by (simp add: whitespace_at_def)
qed

lemma skip_whitespace_done:
  "length s \<le> k \<Longrightarrow> whitespace_at (skip_whitespace k s) = 0"
proof (induction k arbitrary: s)
  case 0
  then show ?case by (simp add: whitespace_at_Nil)
next
  case (Suc k)
  show ?case
  proof (cases "whitespace_at s = 0")
    case True
    then show ?thesis by simp
  next
    case False
    with Suc.prems whitespace_at_le [of s] have "length (drop (whitespace_at s) s) \<le> k"
      by simp
    from Suc.IH [OF this] False show ?thesis by simp
  qed
qed

lemma trimStart_done: "whitespace_at (trimStart s) = 0"
  by (simp add: trimStart_def skip_whitespace_done)

lemmas parseInt_defs = parseInt_def trimStart_def whitespace_at_def whitespace_def
  digit_value_def Let_def

lemma parseInt_samples:
  "parseInt ''1'' = Some 1" "parseInt ''2'' = Some 2" "parseInt ''7'' = Some 7"
  "parseInt ''abc'' = None" "parseInt ''99999999999'' = Some 99999999999"
  "parseInt '' 12abc'' = Some 12" "parseInt ''0x1F'' = Some 31" "parseInt ''-7'' = Some (- 7)"
  "parseInt ''+3.9'' = Some 3" "parseInt ''-'' = None" "parseInt ''0x'' = None"
  by (simp_all add: parseInt_defs)

text \<open>A segment of decimal digits is read as the number it writes.\<close>

lemma whitespace_not_digit: "w \<in> set whitespace \<Longrightarrow> w \<noteq> [] \<and> \<not> digit_value (hd w) < 10"
  by (auto simp: whitespace_def digit_value_def)

lemma whitespace_at_digit:
  assumes "s \<noteq> []" and "digit_value (hd s) < 10"
  shows "whitespace_at s = 0"
proof -
  have "\<not> (\<exists>w \<in> set whitespace. take (length w) s = w)"
  proof
    assume "\<exists>w \<in> set whitespace. take (length w) s = w"
    then obtain w where w: "w \<in> set whitespace" "take (length w) s = w" by blast
    from whitespace_not_digit [OF w(1)] have n: "w \<noteq> []" "\<not> digit_value (hd w) < 10" by simp_all
    from w(2) n(1) assms(1) have "hd w = hd s"
      by (cases s; cases w) auto
    with n(2) assms(2) show False by simp
  qed
  then have "find (\<lambda>w. take (length w) s = w) whitespace = None"
    by (simp add: find_None_iff)
  then show ?thesis by (simp add: whitespace_at_def)
qed

lemma trimStart_digit: "s \<noteq> [] \<Longrightarrow> digit_value (hd s) < 10 \<Longrightarrow> trimStart s = s"
  by (cases s) (simp_all add: trimStart_def whitespace_at_digit)

lemma parseInt_digits:
  assumes "ds \<noteq> []" and "\<forall>c \<in> set ds. digit_value c < 10"
  shows "parseInt ds = Some (int (foldl (\<lambda>a c. a * 10 + digit_value c) 0 ds))"
proof -
  from assms obtain c cs where ds: "ds = c # cs" and c: "digit_value c < 10"
    by (cases ds) auto
  have t: "trimStart ds = ds" using assms ds by (intro trimStart_digit) auto
  have sign: "take (Suc 0) ds \<noteq> ''-''" "take (Suc 0) ds \<noteq> ''+''"
    using c ds by (auto simp: digit_value_def)
  have hex: "take 2 ds \<noteq> ''0x''" "take 2 ds \<noteq> ''0X''"
  proof -
    have "digit_value CHR ''x'' = 33" "digit_value CHR ''X'' = 33" by (simp_all add: digit_value_def)
    with assms(2) have "CHR ''x'' \<notin> set ds" "CHR ''X'' \<notin> set ds" by auto
    then have "CHR ''x'' \<notin> set (take 2 ds)" "CHR ''X'' \<notin> set (take 2 ds)"
      by (auto dest: in_set_takeD)
    then show "take 2 ds \<noteq> ''0x''" "take 2 ds \<noteq> ''0X''" by auto
  qed
  have all: "takeWhile (\<lambda>c. digit_value c < 10) ds = ds"
    using assms(2) by (simp add: takeWhile_eq_all_conv)
  show ?thesis
    using assms(1) by (simp add: parseInt_def Let_def t sign hex all)
qed

lemma integer_param_Inr:
  "integer_param num = Inr i \<longleftrightarrow> num = Some i \<and> - 2147483648 \<le> i \<and> i \<le> 2147483647"
  by (auto simp: integer_param_def split: option.splits)

lemma integer_param_Inl:
  "integer_param num = Inl e \<longleftrightarrow>
     e = InvalidParameter \<and> (num = None \<or> (\<exists>i. num = Some i \<and> (i < - 2147483648 \<or> 2147483647 < i)))"
  by (auto simp: integer_param_def split: option.splits)

lemma storable_text_param: "storable nts \<longleftrightarrow> \<not> text_refused (text_param nts)"
  by (cases nts) simp_all

lemma notes_after_text_param: "apply_upd (text_param nts) stored = notes_after nts stored"
  by (cases nts) simp_all

section \<open>Booking statistics\<close>

lemma length_filter_count_list:
  "length (filter (\<lambda>x. f x = v) xs) = count_list (map f xs) v"
  by (induction xs) auto

lemma status_partition:
  "length (filter (\<lambda>b. b_status b = Pending) bs)
     + length (filter (\<lambda>b. b_status b = Approved) bs)
     + length (filter (\<lambda>b. b_status b = Rejected) bs) = length bs"
proof (induction bs)
  case Nil
  show ?case by simp
next
  case (Cons b bs)
  then show ?case by (cases "b_status b") simp_all
qed

text \<open>
  C9. \<^verbatim>\<open>getBookingStats\<close> returns, for each of the three statuses, the number of
  bookings that have it, and the number of all bookings as the total; the three counts add
  up to the total. (A status outside pending, approved, rejected does not exist: the
  column is the enum.)
\<close>

theorem getBookingStats_counts:
  "pending (getBookingStats d) = count_list (map b_status (bookings d)) Pending \<and>
   approved (getBookingStats d) = count_list (map b_status (bookings d)) Approved \<and>
   rejected (getBookingStats d) = count_list (map b_status (bookings d)) Rejected \<and>
   total (getBookingStats d) = length (bookings d) \<and>
   pending (getBookingStats d) + approved (getBookingStats d) + rejected (getBookingStats d)
     = total (getBookingStats d)"
  using status_partition [of "bookings d"]
  by (simp add: getBookingStats_def Let_def length_filter_count_list)

text \<open>The scenario of the specification: three approved, two pending, one rejected.\<close>

lemma getBookingStats_scenario:
  "getBookingStats (db_open\<lparr>bookings :=
       [finals\<lparr>b_status := Approved\<rparr>, finals\<lparr>b_id := 2\<rparr>,
        finals\<lparr>b_id := 3, b_status := Rejected\<rparr>, finals\<lparr>b_id := 4, b_status := Approved\<rparr>,
        finals\<lparr>b_id := 5\<rparr>, finals\<lparr>b_id := 6, b_status := Approved\<rparr>]\<rparr>)
   = \<lparr> pending = 2, approved = 3, rejected = 1, total = 6 \<rparr>"
  by (simp add: getBookingStats_def finals_def)

section \<open>Booking creation\<close>

lemma find_None_conv: "find P xs = None \<longleftrightarrow> \<not> (\<exists>x \<in> set xs. P x)"
  by (auto simp: find_None_iff)

lemma authenticateToken_ana:
  "authenticateToken env0 now ana_header
     = Inr \<lparr> au_id = 1, au_email = ''ana@campus.edu'', au_role = ''student'' \<rparr>"
  by (simp add: authenticateToken_def bearer_def ana_header_def env0_def)

lemma authenticateToken_ben:
  "authenticateToken env0 now ben_header
     = Inr \<lparr> au_id = 2, au_email = ''ben@campus.edu'', au_role = ''admin'' \<rparr>"
  by (simp add: authenticateToken_def bearer_def ben_header_def env0_def)

lemma authenticateToken_cal:
  "authenticateToken env0 now cal_header
     = Inr \<lparr> au_id = 3, au_email = ''cal@campus.edu'', au_role = ''admin'' \<rparr>"
  by (simp add: authenticateToken_def bearer_def cal_header_def env0_def)

lemma insertBookingSchema_userId:
  "insertBookingSchema (body(''userId'' \<mapsto> JNum i)) = Some parsed \<Longrightarrow> ib_userId parsed = i"
  by (auto simp: insertBookingSchema_def z_number_def split: Option.bind_splits)

lemma createBooking_Inr:
  "createBooking now d parsed = (Inr bk, d1) \<Longrightarrow>
     b_userId bk = ib_userId parsed \<and> b_status bk = Pending \<and> bookings d1 = bookings d @ [bk]"
  by (auto simp: createBooking_def Let_def split: if_splits)

lemma createBooking_Inl:
  "createBooking now d parsed = (Inl e, d1) \<Longrightarrow> bookings d1 = bookings d"
  by (auto simp: createBooking_def Let_def split: if_splits)

lemma createNotification_bookings:
  "createNotification now d ntf = (r, d1) \<Longrightarrow> bookings d1 = bookings d"
  by (auto simp: createNotification_def Let_def split: if_splits)

lemma post_bookings_cases:
  assumes "authenticateToken E now h = Inr caller"
      and "post_bookings E now h body d = (r, d1)"
  shows "bookings d1 = bookings d \<and> (\<forall>bk. r \<noteq> (201, OneBooking bk)) \<or>
         (\<exists>bk. bookings d1 = bookings d @ [bk] \<and> b_userId bk = au_id caller \<and> b_status bk = Pending
             \<and> (\<forall>bk'. r = (201, OneBooking bk') \<longrightarrow> bk' = bk))"
  using assms
  apply (simp add: post_bookings_def authenticated_def Let_def
       split: option.splits prod.splits sum.splits)
  apply (auto dest!: createBooking_Inr createBooking_Inl createNotification_bookings insertBookingSchema_userId)
  done

text \<open>
  C1. Whatever an authenticated request to create a booking has in its body under
  \<^verbatim>\<open>userId\<close> and \<^verbatim>\<open>status\<close>: every booking the request adds is owned by the caller
  and pending, the booking that a 201 response returns is the one added, and the handler
  does the same on the body and on the body with other values (or none) under those two
  keys.
\<close>

theorem post_bookings_owner_and_status:
  assumes "authenticateToken E now h = Inr caller"
      and "post_bookings E now h body d = (r, d1)"
  shows "(\<forall>b \<in> set (bookings d1) - set (bookings d). b_userId b = au_id caller \<and> b_status b = Pending) \<and>
         (\<forall>bk. r = (201, OneBooking bk) \<longrightarrow>
            bookings d1 = bookings d @ [bk] \<and> b_userId bk = au_id caller \<and> b_status bk = Pending) \<and>
         post_bookings E now h (body(''userId'' := uid, ''status'' := st)) d
           = post_bookings E now h body d"
proof -
  have indep: "post_bookings E now h (body(''userId'' := uid, ''status'' := st)) d
           = post_bookings E now h body d"
    by (simp add: post_bookings_def insertBookingSchema_def)
  from post_bookings_cases [OF assms] show ?thesis
    using indep by auto
qed

text \<open>
  Ana's request names user 2 as owner and \<^verbatim>\<open>approved\<close> as status; the booking is hers
  and pending.
\<close>

lemma post_bookings_finals:
  "post_bookings env0 4 ana_header finals_body db_open = ((201, OneBooking finals), db_pending)"
  by (simp add: post_bookings_def authenticated_def authenticateToken_ana
      insertBookingSchema_def finals_body_def z_number_def z_string_def z_string_max_def
      nullable_optional_def createBooking_def createNotification_def db_open_def db_pending_def
      ana_def ben_def gym_def finals_def notice_submitted_def Let_def)

theorem post_bookings_owner_and_status_witness:
  "post_bookings env0 4 ana_header finals_body db_open = ((201, OneBooking finals), db_pending) \<and>
   finals_body ''userId'' = Some (JNum 2) \<and> finals_body ''status'' = Some (JStr ''approved'') \<and>
   b_userId finals = 1 \<and> b_status finals = Pending \<and>
   bookings db_pending = bookings db_open @ [finals] \<and>
   post_bookings env0 4 ana_header (finals_body(''userId'' := None, ''status'' := None)) db_open
     = ((201, OneBooking finals), db_pending)"
proof -
  note t = post_bookings_owner_and_status
    [OF authenticateToken_ana post_bookings_finals, of None None]
  from t have "bookings db_pending = bookings db_open @ [finals] \<and>
      b_userId finals = 1 \<and> b_status finals = Pending"
    by simp
  moreover from t have "post_bookings env0 4 ana_header
      (finals_body(''userId'' := None, ''status'' := None)) db_open
     = ((201, OneBooking finals), db_pending)"
    using post_bookings_finals by simp
  ultimately show ?thesis
    using post_bookings_finals by (simp add: finals_body_def)
qed

section \<open>The gates\<close>

text \<open>
  C5. An approve or reject request whose token verifies to a caller whose role is not
  \<^verbatim>\<open>admin\<close> is answered 403 (Forbidden) by \<^verbatim>\<open>requireAdmin\<close>, and the database is
  as before: the booking keeps its status, reviewer, review timestamp and notes, and no
  notification is created.
\<close>

theorem review_requires_admin:
  assumes "authenticateToken E now h = Inr caller" and "au_role caller \<noteq> ''admin''"
  shows "patch_admin_booking_approve E now h i notes d = ((403, Message ''Admin access required''), d) \<and>
         patch_admin_booking_reject E now h i notes d = ((403, Message ''Admin access required''), d)"
  using assms
  by (simp add: patch_admin_booking_approve_def patch_admin_booking_reject_def admin_only_def
      requireAdmin_def)

theorem review_requires_admin_witness:
  "patch_admin_booking_approve env0 5 ana_header ''1'' (JsString ''ok'') db_pending
     = ((403, Message ''Admin access required''), db_pending) \<and>
   patch_admin_booking_reject env0 5 ana_header ''1'' (JsString ''no'') db_pending
     = ((403, Message ''Admin access required''), db_pending)"
  using review_requires_admin [OF authenticateToken_ana, of 5 "''1''" "JsString ''ok''" db_pending]
    review_requires_admin [OF authenticateToken_ana, of 5 "''1''" "JsString ''no''" db_pending]
  by simp

text \<open>
  C7 says that a token that is present but fails verification is answered 401, as a
  missing token is. The token \<open>forged\<close> is present and does not verify: the answer is 403.
\<close>

theorem authenticateToken_invalid_counterexample:
  "bearer (Some ''Bearer forged'') = Some ''forged'' \<and>
   jwt_verify env0 9 ''forged'' = None \<and>
   authenticateToken env0 9 (Some ''Bearer forged'') = Inl (403, Message ''Invalid or expired token'') \<and>
   fst (projl (authenticateToken env0 9 (Some ''Bearer forged''))) \<noteq> 401"
  by (simp add: authenticateToken_def bearer_def env0_def)

text \<open>
  C7, amended. A request whose \<^verbatim>\<open>Authorization\<close> header carries a token that fails
  \<^verbatim>\<open>jwt.verify\<close> is answered 403 with \<^verbatim>\<open>Invalid or expired token\<close>: the status of
  Forbidden, not the 401 of a missing token.
\<close>

theorem authenticateToken_invalid:
  assumes "bearer h = Some token" and "token \<noteq> []" and "jwt_verify E now token = None"
  shows "authenticateToken E now h = Inl (403, Message ''Invalid or expired token'')"
  using assms by (simp add: authenticateToken_def)

theorem authenticateToken_invalid_witness:
  "authenticateToken env0 9 (Some ''Bearer forged'') = Inl (403, Message ''Invalid or expired token'')"
  using authenticateToken_invalid [of "Some ''Bearer forged''" "''forged''" env0 9]
  by (simp add: bearer_def env0_def)

text \<open>A request with no token is answered 401.\<close>

lemma authenticateToken_missing:
  "bearer h = None \<or> bearer h = Some [] \<Longrightarrow>
     authenticateToken E now h = Inl (401, Message ''Authentication required'')"
  by (auto simp: authenticateToken_def)

section \<open>Registration\<close>

text \<open>
  C8. A registration request whose email is the email of a user row is answered 400 and
  leaves the database as it is: no user row is added and the response carries no token.
  When the body passes validation the answer is the conflict,
  \<^verbatim>\<open>Email already registered\<close>; when it does not, validation has answered 400 before
  the email is looked up.
\<close>

theorem register_duplicate_email:
  assumes "z_string (body ''email'') = Some e" and "\<exists>u \<in> set (users d). u_email u = e"
  shows "post_auth_register E now body d =
           (if registerSchema E body = None then ((400, ValidationFailed), d)
            else ((400, Message ''Email already registered''), d))"
proof (cases "registerSchema E body")
  case None
  then show ?thesis by (simp add: post_auth_register_def)
next
  case (Some parsed)
  with assms(1) have "iu_email parsed = e"
    by (auto simp: registerSchema_def split: Option.bind_splits if_splits)
  with assms(2) have "getUserByEmail d (iu_email (insert_user.truncate parsed)) \<noteq> None"
    by (simp add: getUserByEmail_def find_None_conv insert_user.truncate_def)
  with Some show ?thesis
    by (auto simp: post_auth_register_def Let_def)
qed

theorem register_duplicate_email_witness:
  "registerSchema env0 ana_again \<noteq> None \<and>
   post_auth_register env0 7 ana_again db_pending
     = ((400, Message ''Email already registered''), db_pending)"
proof -
  have e: "z_string (ana_again ''email'') = Some ''ana@campus.edu''"
    by (simp add: ana_again_def z_string_def)
  have u: "\<exists>u \<in> set (users db_pending). u_email u = ''ana@campus.edu''"
    by (simp add: db_pending_def db_open_def ana_def)
  have v: "registerSchema env0 ana_again \<noteq> None"
    by (simp add: registerSchema_def ana_again_def z_string_def z_string_min_def
        z_string_max_def nullable_optional_def optional_def env0_def)
  from register_duplicate_email [of ana_again "''ana@campus.edu''" db_pending env0 7, OF e u] v
  show ?thesis by simp
qed

section \<open>Requests and the bookings table\<close>

lemma effect_same: "bookings d1 = bookings d \<Longrightarrow> bookings_effect now (bookings d) (bookings d1)"
  by (simp add: bookings_effect_def)

lemma createUser_bookings: "createUser E now d usr = (r, d1) \<Longrightarrow> bookings d1 = bookings d"
  by (auto simp: createUser_def Let_def split: if_splits)

lemma updateUser_bookings: "updateUser now d i data = (r, d1) \<Longrightarrow> bookings d1 = bookings d"
  by (auto simp: updateUser_def Let_def)

lemma updateUserPassword_bookings: "updateUserPassword now d i p = (r, d1) \<Longrightarrow> bookings d1 = bookings d"
  by (auto simp: updateUserPassword_def)

lemma updateUserRole_bookings: "updateUserRole now d i ro = (r, d1) \<Longrightarrow> bookings d1 = bookings d"
  by (auto simp: updateUserRole_def Let_def split: sum.splits)

lemma deleteUser_bookings: "deleteUser d i = (r, d1) \<Longrightarrow> bookings d1 = bookings d"
  by (auto simp: deleteUser_def split: if_splits sum.splits)

lemma createFacility_bookings: "createFacility now d fac = (r, d1) \<Longrightarrow> bookings d1 = bookings d"
  by (auto simp: createFacility_def Let_def)

lemma updateFacility_bookings: "updateFacility now d i data = (r, d1) \<Longrightarrow> bookings d1 = bookings d"
  by (auto simp: updateFacility_def Let_def split: sum.splits)

lemma deleteFacility_bookings: "deleteFacility d i = (r, d1) \<Longrightarrow> bookings d1 = bookings d"
  by (auto simp: deleteFacility_def split: if_splits sum.splits)

lemma markNotificationRead_bookings: "markNotificationRead d i = (r, d1) \<Longrightarrow> bookings d1 = bookings d"
  by (auto simp: markNotificationRead_def split: sum.splits)

lemma markAllNotificationsRead_bookings:
  "markAllNotificationsRead d i = (r, d1) \<Longrightarrow> bookings d1 = bookings d"
  by (auto simp: markAllNotificationsRead_def)

lemma updateBookingStatus_bookings:
  "updateBookingStatus now d num st a notes = (r, d1) \<Longrightarrow>
     bookings d1 = bookings d \<or>
     (\<exists>i. bookings d1 = map (\<lambda>b. if b_id b = i then review now st a notes b else b) (bookings d))"
  by (auto simp: updateBookingStatus_def Let_def split: if_splits sum.splits)

lemma authenticateToken_Inl:
  "authenticateToken E now h = Inl r \<Longrightarrow> fst r = 401 \<or> fst r = 403"
  by (auto simp: authenticateToken_def split: option.splits if_splits)

lemma authenticated_cases:
  assumes "authenticated E now h d f = (r, d1)"
  obtains "d1 = d" and "fst r = 401 \<or> fst r = 403"
  | caller where "authenticateToken E now h = Inr caller" and "f caller = (r, d1)"
  using assms
  by (auto simp: authenticated_def split: sum.splits dest: authenticateToken_Inl)

lemma admin_only_cases:
  assumes "admin_only E now h d f = (r, d1)"
  obtains "d1 = d" and "fst r = 401 \<or> fst r = 403"
  | caller where "authenticateToken E now h = Inr caller" and "au_role caller = ''admin''"
      and "f caller = (r, d1)"
  using assms
  by (auto simp: admin_only_def requireAdmin_def split: sum.splits if_splits
      dest: authenticateToken_Inl)

lemma post_auth_register_bookings:
  "post_auth_register E now body d = (r, d1) \<Longrightarrow> bookings d1 = bookings d"
  by (auto simp: post_auth_register_def Let_def split: option.splits prod.splits sum.splits
      dest: createUser_bookings)

lemma post_auth_login_bookings:
  "post_auth_login E now body d = (r, d1) \<Longrightarrow> bookings d1 = bookings d"
  by (auto simp: post_auth_login_def split: option.splits prod.splits if_splits)

lemma patch_users_profile_bookings:
  "patch_users_profile E now h body d = (r, d1) \<Longrightarrow> bookings d1 = bookings d"
  unfolding patch_users_profile_def
  by (erule authenticated_cases) (auto split: option.splits prod.splits dest: updateUser_bookings)

lemma patch_users_password_bookings:
  "patch_users_password E now h cur new d = (r, d1) \<Longrightarrow> bookings d1 = bookings d"
  unfolding patch_users_password_def
  by (erule authenticated_cases)
    (auto simp: Let_def split: option.splits prod.splits if_splits dest: updateUserPassword_bookings)

lemma post_bookings_effect:
  "post_bookings E now h body d = (r, d1) \<Longrightarrow> bookings_effect now (bookings d) (bookings d1)"
  unfolding post_bookings_def
  apply (erule authenticated_cases)
   apply (simp add: bookings_effect_def)
  apply (auto simp: Let_def bookings_effect_def createBooking_def createNotification_def
      split: option.splits prod.splits sum.splits if_splits)
  done

lemma patch_notification_read_bookings:
  "patch_notification_read E now h i d = (r, d1) \<Longrightarrow> bookings d1 = bookings d"
  unfolding patch_notification_read_def
  by (erule authenticated_cases)
    (auto split: prod.splits sum.splits dest: markNotificationRead_bookings)

lemma patch_notifications_read_all_bookings:
  "patch_notifications_read_all E now h d = (r, d1) \<Longrightarrow> bookings d1 = bookings d"
  unfolding patch_notifications_read_all_def
  by (erule authenticated_cases) (auto simp: markAllNotificationsRead_def)

lemma patch_admin_booking_approve_effect:
  "patch_admin_booking_approve E now h i notes d = (r, d1) \<Longrightarrow>
     bookings_effect now (bookings d) (bookings d1)"
  unfolding patch_admin_booking_approve_def
  apply (erule admin_only_cases)
   apply (simp add: bookings_effect_def)
  apply (auto simp: Let_def bookings_effect_def split: option.splits prod.splits sum.splits
      dest!: updateBookingStatus_bookings createNotification_bookings)
   apply blast+
  done

lemma patch_admin_booking_reject_effect:
  "patch_admin_booking_reject E now h i notes d = (r, d1) \<Longrightarrow>
     bookings_effect now (bookings d) (bookings d1)"
  unfolding patch_admin_booking_reject_def
  apply (erule admin_only_cases)
   apply (simp add: bookings_effect_def)
  apply (auto simp: Let_def bookings_effect_def split: option.splits prod.splits sum.splits
      dest!: updateBookingStatus_bookings createNotification_bookings)
   apply blast+
  done

lemma patch_admin_user_role_bookings:
  "patch_admin_user_role E now h i ro d = (r, d1) \<Longrightarrow> bookings d1 = bookings d"
  unfolding patch_admin_user_role_def
  by (erule admin_only_cases)
    (auto simp: Let_def split: option.splits prod.splits sum.splits dest: updateUserRole_bookings)

lemma delete_admin_user_bookings:
  "delete_admin_user E now h i d = (r, d1) \<Longrightarrow> bookings d1 = bookings d"
  unfolding delete_admin_user_def
  by (erule admin_only_cases)
    (auto simp: Let_def split: option.splits prod.splits sum.splits if_splits
      dest: deleteUser_bookings)

lemma post_admin_facilities_bookings:
  "post_admin_facilities E now h body d = (r, d1) \<Longrightarrow> bookings d1 = bookings d"
  unfolding post_admin_facilities_def
  by (erule admin_only_cases)
    (auto split: option.splits prod.splits dest: createFacility_bookings)

lemma patch_admin_facility_bookings:
  "patch_admin_facility E now h i body d = (r, d1) \<Longrightarrow> bookings d1 = bookings d"
  unfolding patch_admin_facility_def
  by (erule admin_only_cases)
    (auto simp: Let_def split: option.splits prod.splits sum.splits dest: updateFacility_bookings)

lemma delete_admin_facility_bookings:
  "delete_admin_facility E now h i d = (r, d1) \<Longrightarrow> bookings d1 = bookings d"
  unfolding delete_admin_facility_def
  by (erule admin_only_cases)
    (auto simp: Let_def split: option.splits prod.splits sum.splits dest: deleteFacility_bookings)

lemma read_only_bookings:
  "get_facilities d = (r, d1) \<Longrightarrow> bookings d1 = bookings d"
  "get_facility i d = (r, d1) \<Longrightarrow> bookings d1 = bookings d"
  "get_bookings_my E now h d = (r, d1) \<Longrightarrow> bookings d1 = bookings d"
  "get_bookings_stats E now h d = (r, d1) \<Longrightarrow> bookings d1 = bookings d"
  "get_notifications E now h d = (r, d1) \<Longrightarrow> bookings d1 = bookings d"
  "get_admin_bookings E now h d = (r, d1) \<Longrightarrow> bookings d1 = bookings d"
  "get_admin_users E now h d = (r, d1) \<Longrightarrow> bookings d1 = bookings d"
  "get_admin_stats E now h d = (r, d1) \<Longrightarrow> bookings d1 = bookings d"
  by (auto simp: get_facilities_def get_facility_def get_bookings_my_def get_bookings_stats_def
      get_notifications_def get_admin_bookings_def get_admin_users_def get_admin_stats_def
      authenticated_def admin_only_def Let_def split: option.splits sum.splits)

lemma handle_bookings_effect:
  assumes "handle E now ep rq d = (r, d1)"
  shows "bookings_effect now (bookings d) (bookings d1)"
proof (cases ep)
  case PostBookings
  with assms show ?thesis by (simp add: handle_def post_bookings_effect)
next
  case (PatchAdminBookingApprove pid)
  with assms show ?thesis by (simp add: handle_def patch_admin_booking_approve_effect)
next
  case (PatchAdminBookingReject pid)
  with assms show ?thesis by (simp add: handle_def patch_admin_booking_reject_effect)
qed (insert assms, auto simp: handle_def intro!: effect_same
      dest: post_auth_register_bookings post_auth_login_bookings patch_users_profile_bookings
        patch_users_password_bookings patch_notification_read_bookings
        patch_notifications_read_all_bookings patch_admin_user_role_bookings
        delete_admin_user_bookings post_admin_facilities_bookings patch_admin_facility_bookings
        delete_admin_facility_bookings read_only_bookings)

lemma serve_bookings_effect:
  assumes "serve E now rq d = (r, d1)"
  shows "bookings_effect now (bookings d) (bookings d1)"
proof (cases "route (rq_method rq) (rq_path rq)")
  case None
  with assms show ?thesis by (simp add: serve_def bookings_effect_def)
next
  case (Some ep)
  with assms obtain r1 where "handle E now ep rq d = (r1, d1)"
    by (auto simp: serve_def split: prod.splits)
  then show ?thesis by (rule handle_bookings_effect)
qed

lemma review_consistent_review:
  "st \<noteq> Pending \<Longrightarrow> review_consistent (review now st a notes b)"
  by (cases st) (simp_all add: review_consistent_def review_def)

lemma bookings_effect_consistent:
  assumes "bookings_effect now bs bs1" and "\<forall>b \<in> set bs. review_consistent b"
  shows "\<forall>b \<in> set bs1. review_consistent b"
  using assms
  by (auto simp: bookings_effect_def review_consistent_review)
    (auto simp: review_consistent_def)

text \<open>
  C2. In every state of the database that requests to the API reach from the empty one,
  every booking has one of the three statuses, and its reviewer and its review timestamp
  are each NULL exactly when its status is pending.
\<close>

theorem reachable_review_consistent:
  assumes "reachable E d"
  shows "\<forall>b \<in> set (bookings d). review_consistent b"
  using assms
proof (induction rule: reachable.induct)
  case reachable_empty
  show ?case by (simp add: empty_db_def)
next
  case (reachable_serve d now rq r d1)
  from serve_bookings_effect [OF reachable_serve.hyps(2)] reachable_serve.IH
  show ?case by (rule bookings_effect_consistent)
qed

text \<open>The five sample requests, run from the empty database.\<close>

lemmas z_defs = z_string_def z_string_min_def z_string_max_def z_number_def z_role_def
  z_facility_status_def nullable_optional_def optional_def role_of_string_def

lemma serve_register_ana:
  "serve env0 1 rq_register_ana empty_db
     = (Some (201, UserAndToken (withoutPassword ana) ''student.ana@campus.edu''), db_ana)"
  by (simp add: serve_def route_def handle_def rq_register_ana_def rq0_def post_auth_register_def
      registerSchema_def z_defs env0_def insert_user.truncate_def getUserByEmail_def empty_db_def
      createUser_def Let_def token_for_def role_name_def db_ana_def ana_def)

lemma serve_register_ben:
  "serve env0 2 rq_register_ben db_ana
     = (Some (201, UserAndToken (withoutPassword ben) ''admin.ben@campus.edu''), db_staff)"
  by (simp add: serve_def route_def handle_def rq_register_ben_def rq0_def post_auth_register_def
      registerSchema_def z_defs env0_def insert_user.truncate_def getUserByEmail_def empty_db_def
      createUser_def Let_def token_for_def role_name_def db_ana_def db_staff_def ana_def ben_def)

lemma serve_open_gym:
  "serve env0 3 rq_open_gym db_staff = (Some (201, OneFacility gym), db_open)"
  by (simp add: serve_def route_def handle_def rq_open_gym_def rq0_def post_admin_facilities_def
      admin_only_def authenticateToken_ben requireAdmin_def
      insertFacilitySchema_def z_defs empty_db_def
      createFacility_def Let_def db_staff_def db_open_def gym_def)

lemma serve_book:
  "serve env0 4 rq_book db_open = (Some (201, OneBooking finals), db_pending)"
  by (simp add: serve_def route_def handle_def rq_book_def rq0_def post_bookings_finals)

lemma approve_finals:
  "patch_admin_booking_approve env0 5 ben_header ''1'' (JsString ''ok'') db_pending
     = ((200, OneBooking finals_approved), db_approved)"
  by (simp add: patch_admin_booking_approve_def admin_only_def authenticateToken_ben
      requireAdmin_def parseInt_samples integer_param_def updateBookingStatus_def review_def
      createNotification_def Let_def
      db_pending_def db_open_def db_approved_def finals_def finals_approved_def
      ana_def ben_def notice_approved_def)

lemma reject_finals_approved:
  "patch_admin_booking_reject env0 6 ben_header ''1'' JsUndefined db_approved
     = ((200, OneBooking finals_rejected), db_rejected)"
  by (simp add: patch_admin_booking_reject_def admin_only_def authenticateToken_ben
      requireAdmin_def parseInt_samples integer_param_def updateBookingStatus_def review_def
      createNotification_def Let_def
      db_pending_def db_open_def db_approved_def db_rejected_def finals_def finals_approved_def
      finals_rejected_def ana_def ben_def notice_rejected_def reason_def)

lemma serve_approve:
  "serve env0 5 rq_approve db_pending = (Some (200, OneBooking finals_approved), db_approved)"
  by (simp add: serve_def route_def handle_def rq_approve_def rq0_def approve_finals)

text \<open>
  The other course of events: Cal registers, approves booking 1, and deletes Ben's
  account, which nothing references.
\<close>

lemma serve_register_cal:
  "serve env0 5 rq_register_cal db_pending
     = (Some (201, UserAndToken (withoutPassword cal) ''admin.cal@campus.edu''), db_cal)"
  by (simp add: serve_def route_def handle_def rq_register_cal_def rq0_def post_auth_register_def
      registerSchema_def z_defs env0_def insert_user.truncate_def getUserByEmail_def
      createUser_def Let_def token_for_def role_name_def db_pending_def db_open_def db_cal_def
      ana_def ben_def cal_def)

lemma approve_finals_cal:
  "patch_admin_booking_approve env0 6 cal_header ''1'' (JsString ''ok'') db_cal
     = ((200, OneBooking finals_cal), db_cal_approved)"
  by (simp add: patch_admin_booking_approve_def admin_only_def authenticateToken_cal
      requireAdmin_def parseInt_samples integer_param_def updateBookingStatus_def review_def
      createNotification_def Let_def
      db_cal_def db_pending_def db_open_def db_cal_approved_def finals_def finals_cal_def
      ana_def ben_def cal_def notice_cal_def)

lemma serve_cal_approves:
  "serve env0 6 rq_cal_approves db_cal = (Some (200, OneBooking finals_cal), db_cal_approved)"
  by (simp add: serve_def route_def handle_def rq_cal_approves_def rq0_def approve_finals_cal)

lemma serve_cal_deletes_ben:
  "serve env0 7 rq_cal_deletes_ben db_cal_approved
     = (Some (200, Message ''User deleted successfully''), db_ben_gone)"
  by (simp add: serve_def route_def handle_def rq_cal_deletes_ben_def rq0_def
      delete_admin_user_def admin_only_def authenticateToken_cal requireAdmin_def
      parseInt_samples integer_param_def deleteUser_def user_referenced_def Let_def
      db_cal_approved_def db_cal_def db_pending_def db_open_def db_ben_gone_def
      finals_def finals_cal_def notice_submitted_def notice_cal_def ana_def ben_def cal_def)

lemma reachable_db_approved: "reachable env0 db_approved"
  by (rule reachable_serve [OF _ serve_approve], rule reachable_serve [OF _ serve_book],
      rule reachable_serve [OF _ serve_open_gym], rule reachable_serve [OF _ serve_register_ben],
      rule reachable_serve [OF _ serve_register_ana], rule reachable_empty)

lemma reachable_db_pending: "reachable env0 db_pending"
  by (rule reachable_serve [OF _ serve_book],
      rule reachable_serve [OF _ serve_open_gym], rule reachable_serve [OF _ serve_register_ben],
      rule reachable_serve [OF _ serve_register_ana], rule reachable_empty)

lemma reachable_db_ben_gone: "reachable env0 db_ben_gone"
  by (rule reachable_serve [OF _ serve_cal_deletes_ben],
      rule reachable_serve [OF _ serve_cal_approves],
      rule reachable_serve [OF _ serve_register_cal], rule reachable_db_pending)

theorem reachable_review_consistent_witness:
  "reachable env0 db_pending \<and> bookings db_pending = [finals] \<and> review_consistent finals \<and>
   b_status finals = Pending \<and> b_reviewedBy finals = None \<and> b_reviewedAt finals = None \<and>
   reachable env0 db_approved \<and> bookings db_approved = [finals_approved] \<and>
   review_consistent finals_approved \<and> b_status finals_approved = Approved \<and>
   b_reviewedBy finals_approved = Some 2 \<and> b_reviewedAt finals_approved = Some 5"
  using reachable_review_consistent [OF reachable_db_pending]
    reachable_review_consistent [OF reachable_db_approved]
    reachable_db_pending reachable_db_approved
  by (simp add: db_pending_def db_approved_def finals_def finals_approved_def)

section \<open>Review of a booking\<close>

lemma find_map_review:
  "find (\<lambda>b. b_id b = i) (map (\<lambda>b. if b_id b = i then review now st a nts b else b) bs)
     = map_option (review now st a nts) (find (\<lambda>b. b_id b = i) bs)"
  by (induction bs) (simp_all add: review_def)

lemma find_Some_id: "find (\<lambda>b. b_id b = i) bs = Some old \<Longrightarrow> old \<in> set bs \<and> b_id old = i"
  by (induction bs) (auto split: if_splits)

lemma updateBookingStatus_refused:
  assumes "integer_param num = Inl e \<or> \<not> storable nts"
  shows "updateBookingStatus now d num st a nts = (Inl InvalidParameter, d)"
proof (cases "integer_param num")
  case (Inl e1)
  then have "e1 = InvalidParameter" by (simp add: integer_param_Inl)
  with Inl show ?thesis by (simp add: updateBookingStatus_def)
next
  case (Inr i)
  with assms have "text_refused (text_param nts)" by (simp add: storable_text_param)
  with Inr show ?thesis by (simp add: updateBookingStatus_def)
qed

lemma updateBookingStatus_absent:
  "integer_param num = Inr i \<Longrightarrow> storable nts \<Longrightarrow> \<not> (\<exists>b \<in> set (bookings d). b_id b = i) \<Longrightarrow>
     updateBookingStatus now d num st a nts = (Inr None, d)"
  by (simp add: updateBookingStatus_def storable_text_param)

lemma updateBookingStatus_no_reviewer:
  "integer_param num = Inr i \<Longrightarrow> storable nts \<Longrightarrow> \<exists>b \<in> set (bookings d). b_id b = i \<Longrightarrow>
     \<not> (\<exists>u \<in> set (users d). u_id u = a) \<Longrightarrow>
     updateBookingStatus now d num st a nts = (Inl ForeignKeyViolation, d)"
  by (simp add: updateBookingStatus_def storable_text_param)

lemma updateBookingStatus_found:
  assumes "integer_param num = Inr i" and "storable nts"
      and "find (\<lambda>b. b_id b = i) (bookings d) = Some old"
      and "\<exists>u \<in> set (users d). u_id u = a"
  shows "updateBookingStatus now d num st a nts =
           (Inr (Some (review now st a nts old)),
            d\<lparr>bookings := map (\<lambda>b. if b_id b = i then review now st a nts b else b) (bookings d)\<rparr>)"
proof -
  from find_Some_id [OF assms(3)] have "\<exists>b \<in> set (bookings d). b_id b = i" by blast
  with assms show ?thesis
    by (simp add: updateBookingStatus_def Let_def find_map_review storable_text_param)
qed

lemma reviewed_as_review: "reviewed_as st a now nts b (review now st a nts b)"
  by (simp add: reviewed_as_def review_def notes_after_text_param)

lemma list_all2_review:
  "list_all2 (\<lambda>b b1. if b_id b = i then reviewed_as st a now nts b b1 else b1 = b)
     bs (map (\<lambda>b. if b_id b = i then review now st a nts b else b) bs)"
  by (induction bs) (simp_all add: reviewed_as_review)

lemma review_in_map:
  "old \<in> set bs \<Longrightarrow> b_id old = i \<Longrightarrow>
     review now st a nts old
       \<in> set (map (\<lambda>b. if b_id b = i then review now st a nts b else b) bs)"
  by (induction bs) auto

lemma admin_only_admin:
  "authenticateToken E now h = Inr caller \<Longrightarrow> au_role caller = ''admin'' \<Longrightarrow>
     admin_only E now h d f = f caller"
  by (simp add: admin_only_def requireAdmin_def)

lemma owner_exists:
  "owners_exist d \<Longrightarrow> find (\<lambda>b. b_id b = i) (bookings d) = Some old \<Longrightarrow>
     \<exists>u \<in> set (users d). u_id u = b_userId old"
proof -
  assume o: "owners_exist d" and f: "find (\<lambda>b. b_id b = i) (bookings d) = Some old"
  from find_Some_id [OF f] have "b_userId old \<in> b_userId ` set (bookings d)" by simp
  with o have "b_userId old \<in> u_id ` set (users d)" by (auto simp: owners_exist_def)
  then show ?thesis by auto
qed

text \<open>The two review routes hand the segment of the path to their handlers.\<close>

lemma route_review:
  "seg \<noteq> [] \<Longrightarrow>
     route PATCH [''api'', ''admin'', ''bookings'', seg, ''approve'']
       = Some (PatchAdminBookingApprove seg) \<and>
     route PATCH [''api'', ''admin'', ''bookings'', seg, ''reject'']
       = Some (PatchAdminBookingReject seg)"
  by (simp add: route_def)

lemma serve_review:
  assumes "rq_method rq = PATCH" and "seg \<noteq> []"
  shows "rq_path rq = [''api'', ''admin'', ''bookings'', seg, ''approve''] \<Longrightarrow>
           serve E now rq d
             = (Some (fst (patch_admin_booking_approve E now (rq_authorization rq) seg (rq_notes rq) d)),
                snd (patch_admin_booking_approve E now (rq_authorization rq) seg (rq_notes rq) d))"
    and "rq_path rq = [''api'', ''admin'', ''bookings'', seg, ''reject''] \<Longrightarrow>
           serve E now rq d
             = (Some (fst (patch_admin_booking_reject E now (rq_authorization rq) seg (rq_notes rq) d)),
                snd (patch_admin_booking_reject E now (rq_authorization rq) seg (rq_notes rq) d))"
  using assms by (simp_all add: serve_def route_def handle_def split: prod.splits)

text \<open>
  The database refuses the id of the path (not a number, or not in the range of the
  column) or the notes (a zero byte): the handler answers 500 with the database as before.
\<close>

lemma review_refused:
  assumes "authenticateToken E now h = Inr caller" and "au_role caller = ''admin''"
      and "integer_param (parseInt pid) = Inl e \<or> \<not> storable nts"
  shows "patch_admin_booking_approve E now h pid nts d
           = ((500, Message ''Failed to approve booking''), d)"
    and "patch_admin_booking_reject E now h pid nts d
           = ((500, Message ''Failed to reject booking''), d)"
  by (simp_all add: patch_admin_booking_approve_def patch_admin_booking_reject_def
      admin_only_admin [OF assms(1,2)] updateBookingStatus_refused [OF assms(3)])

lemma review_absent:
  assumes "authenticateToken E now h = Inr caller" and "au_role caller = ''admin''"
      and "integer_param (parseInt pid) = Inr i" and "storable nts"
      and "\<not> (\<exists>b \<in> set (bookings d). b_id b = i)"
  shows "patch_admin_booking_approve E now h pid nts d = ((404, Message ''Booking not found''), d)"
    and "patch_admin_booking_reject E now h pid nts d = ((404, Message ''Booking not found''), d)"
  by (simp_all add: patch_admin_booking_approve_def patch_admin_booking_reject_def
      admin_only_admin [OF assms(1,2)] updateBookingStatus_absent [OF assms(3,4,5)])

text \<open>
  A caller whose token still verifies as administrator but whose user row has been deleted
  cannot review: the foreign key of \<^verbatim>\<open>reviewedBy\<close> refuses the update, and the handler
  answers 500 with the database as before.
\<close>

lemma review_by_deleted_admin:
  assumes "authenticateToken E now h = Inr caller" and "au_role caller = ''admin''"
      and "integer_param (parseInt pid) = Inr i" and "storable nts"
      and "\<exists>b \<in> set (bookings d). b_id b = i"
      and "\<not> (\<exists>u \<in> set (users d). u_id u = au_id caller)"
  shows "patch_admin_booking_approve E now h pid nts d
           = ((500, Message ''Failed to approve booking''), d)"
    and "patch_admin_booking_reject E now h pid nts d
           = ((500, Message ''Failed to reject booking''), d)"
  by (simp_all add: patch_admin_booking_approve_def patch_admin_booking_reject_def
      admin_only_admin [OF assms(1,2)] updateBookingStatus_no_reviewer [OF assms(3,4,5,6)])

lemma approve_found:
  assumes "authenticateToken E now h = Inr caller" and "au_role caller = ''admin''"
      and "integer_param (parseInt pid) = Inr i" and "storable nts"
      and "find (\<lambda>b. b_id b = i) (bookings d) = Some old"
      and "\<exists>u \<in> set (users d). u_id u = au_id caller"
      and "\<exists>u \<in> set (users d). u_id u = b_userId old"
  shows \<open>\<exists>n d1. patch_admin_booking_approve E now h pid nts d
             = ((200, OneBooking (review now Approved (au_id caller) nts old)), d1) \<and>
           review_stored Approved (au_id caller) now nts i old n d d1 \<and>
           bookings d1 = map (\<lambda>b. if b_id b = i then review now Approved (au_id caller) nts b else b)
                           (bookings d) \<and>
           n_title n = ''Booking Approved'' \<and> n_type n = ''success'' \<and>
           n_message n = ''Your booking request for "'' @ b_eventName old @ ''" has been approved!''\<close>
proof -
  let ?bs = "map (\<lambda>b. if b_id b = i then review now Approved (au_id caller) nts b else b)
               (bookings d)"
  let ?d1 = "d\<lparr>bookings := ?bs\<rparr>"
  let ?upd = "review now Approved (au_id caller) nts old"
  define n where \<open>n = \<lparr> n_id = notifications_id_seq d, n_userId = b_userId old,
     n_title = ''Booking Approved'',
     n_message = ''Your booking request for "'' @ b_eventName old @ ''" has been approved!'',
     n_type = ''success'', n_relatedBookingId = Some i, n_status = Unread,
     n_createdAt = Some now \<rparr>\<close>
  define d2 where "d2 = ?d1\<lparr>notifications_id_seq := notifications_id_seq d + 1,
     notifications := notifications d @ [n]\<rparr>"
  from find_Some_id [OF assms(5)] have old: "old \<in> set (bookings d)" "b_id old = i" by auto
  have u: "updateBookingStatus now d (parseInt pid) Approved (au_id caller) nts
             = (Inr (Some ?upd), ?d1)"
    by (rule updateBookingStatus_found [OF assms(3,4,5,6)])
  have ex: "\<exists>b \<in> set ?bs. b_id b = i"
    using review_in_map [OF old] old(2) by (intro bexI [of _ ?upd]) (simp_all add: review_def)
  have fields: "b_userId ?upd = b_userId old" "b_eventName ?upd = b_eventName old"
      "b_id ?upd = i"
    using old(2) by (simp_all add: review_def)
  have res: "patch_admin_booking_approve E now h pid nts d = ((200, OneBooking ?upd), d2)"
    using ex assms(7)
    by (simp add: patch_admin_booking_approve_def admin_only_admin [OF assms(1,2)] u fields
        createNotification_def Let_def n_def d2_def)
  have st: "review_stored Approved (au_id caller) now nts i old n d d2"
    by (simp add: review_stored_def d2_def n_def list_all2_review)
  show ?thesis
    using res st by (intro exI [of _ n] exI [of _ d2]) (simp add: n_def d2_def)
qed

lemma reject_found:
  assumes "authenticateToken E now h = Inr caller" and "au_role caller = ''admin''"
      and "integer_param (parseInt pid) = Inr i" and "storable nts"
      and "find (\<lambda>b. b_id b = i) (bookings d) = Some old"
      and "\<exists>u \<in> set (users d). u_id u = au_id caller"
      and "\<exists>u \<in> set (users d). u_id u = b_userId old"
      and "reason nts = Some why"
  shows \<open>\<exists>n d1. patch_admin_booking_reject E now h pid nts d
             = ((200, OneBooking (review now Rejected (au_id caller) nts old)), d1) \<and>
           review_stored Rejected (au_id caller) now nts i old n d d1 \<and>
           bookings d1 = map (\<lambda>b. if b_id b = i then review now Rejected (au_id caller) nts b else b)
                           (bookings d) \<and>
           n_title n = ''Booking Rejected'' \<and> n_type n = ''error'' \<and>
           n_message n = ''Your booking request for "'' @ b_eventName old @ ''" has been rejected. ''
              @ why\<close>
proof -
  let ?bs = "map (\<lambda>b. if b_id b = i then review now Rejected (au_id caller) nts b else b)
               (bookings d)"
  let ?d1 = "d\<lparr>bookings := ?bs\<rparr>"
  let ?upd = "review now Rejected (au_id caller) nts old"
  define n where \<open>n = \<lparr> n_id = notifications_id_seq d, n_userId = b_userId old,
     n_title = ''Booking Rejected'',
     n_message = ''Your booking request for "'' @ b_eventName old @ ''" has been rejected. '' @ why,
     n_type = ''error'', n_relatedBookingId = Some i, n_status = Unread,
     n_createdAt = Some now \<rparr>\<close>
  define d2 where "d2 = ?d1\<lparr>notifications_id_seq := notifications_id_seq d + 1,
     notifications := notifications d @ [n]\<rparr>"
  from find_Some_id [OF assms(5)] have old: "old \<in> set (bookings d)" "b_id old = i" by auto
  have u: "updateBookingStatus now d (parseInt pid) Rejected (au_id caller) nts
             = (Inr (Some ?upd), ?d1)"
    by (rule updateBookingStatus_found [OF assms(3,4,5,6)])
  have ex: "\<exists>b \<in> set ?bs. b_id b = i"
    using review_in_map [OF old] old(2) by (intro bexI [of _ ?upd]) (simp_all add: review_def)
  have fields: "b_userId ?upd = b_userId old" "b_eventName ?upd = b_eventName old"
      "b_id ?upd = i"
    using old(2) by (simp_all add: review_def)
  have res: "patch_admin_booking_reject E now h pid nts d = ((200, OneBooking ?upd), d2)"
    using ex assms(7)
    by (simp add: patch_admin_booking_reject_def admin_only_admin [OF assms(1,2)] u fields
        assms(8) createNotification_def Let_def n_def d2_def)
  have st: "review_stored Rejected (au_id caller) now nts i old n d d2"
    by (simp add: review_stored_def d2_def n_def list_all2_review)
  show ?thesis
    using res st by (intro exI [of _ n] exI [of _ d2]) (simp add: n_def d2_def)
qed

text \<open>
  When the notes of a rejection have no conversion to a string, the template literal of
  the message throws after the update: the answer is 500, the booking is rejected, and no
  notification is created.
\<close>

lemma reject_unconvertible:
  assumes "authenticateToken E now h = Inr caller" and "au_role caller = ''admin''"
      and "integer_param (parseInt pid) = Inr i" and "storable nts"
      and "find (\<lambda>b. b_id b = i) (bookings d) = Some old"
      and "\<exists>u \<in> set (users d). u_id u = au_id caller"
      and "reason nts = None"
  shows "patch_admin_booking_reject E now h pid nts d
           = ((500, Message ''Failed to reject booking''),
              d\<lparr>bookings := map (\<lambda>b. if b_id b = i
                    then review now Rejected (au_id caller) nts b else b) (bookings d)\<rparr>)"
  by (simp add: patch_admin_booking_reject_def admin_only_admin [OF assms(1,2)]
      updateBookingStatus_found [OF assms(3,4,5,6)] assms(7))

lemma reason_Some:
  "(truthy nts \<longrightarrow> template nts = Some txt) \<Longrightarrow>
     reason nts = Some (if truthy nts then ''Reason: '' @ txt else [])"
  by (simp add: reason_def)

lemma reason_None: "truthy nts \<Longrightarrow> template nts = None \<Longrightarrow> reason nts = None"
  by (simp add: reason_def)

text \<open>
  C3 says that an administrator's approve or reject call fails with NotFound when no
  booking has the id, and otherwise updates the booking and notifies its owner. Both
  halves fail. No booking has the id 99999999999, nor an id \<open>abc\<close>: Ben's approve calls
  on them (\<^verbatim>\<open>PATCH /api/admin/bookings/abc/approve\<close>) are answered 500, not 404. Booking 1 exists in a state that seven requests reach
  from the empty database, in which Cal has deleted Ben's account: Ben's token still
  verifies as administrator, and his approve and reject calls on booking 1 are answered
  500, with the booking and the notifications as they were.
\<close>

theorem review_booking_counterexample:
  \<open>authenticateToken env0 8 ben_header
     = Inr \<lparr> au_id = 2, au_email = ''ben@campus.edu'', au_role = ''admin'' \<rparr> \<and>
   map b_id (bookings db_pending) = [1] \<and>
   patch_admin_booking_approve env0 8 ben_header ''99999999999'' (JsString ''ok'') db_pending
     = ((500, Message ''Failed to approve booking''), db_pending) \<and>
   patch_admin_booking_approve env0 8 ben_header ''abc'' (JsString ''ok'') db_pending
     = ((500, Message ''Failed to approve booking''), db_pending) \<and>
   serve env0 8 (rq_approve\<lparr>rq_path := [''api'', ''admin'', ''bookings'', ''abc'', ''approve'']\<rparr>)
       db_pending
     = (Some (500, Message ''Failed to approve booking''), db_pending) \<and>
   reachable env0 db_ben_gone \<and>
   map b_id (bookings db_ben_gone) = [1] \<and>
   patch_admin_booking_approve env0 8 ben_header ''1'' (JsString ''ok'') db_ben_gone
     = ((500, Message ''Failed to approve booking''), db_ben_gone) \<and>
   patch_admin_booking_reject env0 8 ben_header ''1'' (JsString ''no'') db_ben_gone
     = ((500, Message ''Failed to reject booking''), db_ben_gone)\<close>
  using reachable_db_ben_gone authenticateToken_ben [of 8]
  by (simp add: serve_def route_def handle_def rq_approve_def rq0_def
      patch_admin_booking_approve_def patch_admin_booking_reject_def admin_only_def
      requireAdmin_def parseInt_samples integer_param_def updateBookingStatus_def
      db_ben_gone_def db_cal_approved_def db_cal_def db_pending_def db_open_def
      finals_def finals_cal_def ana_def cal_def)

text \<open>
  C3, amended. An approve or reject call by an administrator (the token verifies, its role
  is \<^verbatim>\<open>admin\<close>), in a database where every booking's owner has a user row (the foreign
  key of \<^verbatim>\<open>bookings.userId\<close>), is answered as follows.

  \<^item> When \<^verbatim>\<open>parseInt\<close> of the id in the path is not a number or is outside the range
    of a 32-bit integer, or when the text of the notes has a zero byte: 500, and the
    database is as before.

  \<^item> Otherwise, when no booking has the id: 404, and the database is as before, so no
    notification is created.

  \<^item> Otherwise, when the caller has no user row (the account behind the token has been
    deleted): 500, and the database is as before.

  \<^item> Otherwise the booking is updated: status approved or rejected as called, reviewer
    the caller, review timestamp now, and as notes the stored ones when the body has no
    notes, none when the notes are \<^verbatim>\<open>null\<close>, the string when they are a string (the
    empty one included), the text of any other value. An approve call is then answered
    200 with the updated booking, and exactly one notification is added, unread, for the
    booking's owner and about this booking, titled \<^verbatim>\<open>Booking Approved\<close>. So is a reject
    call, with the title \<^verbatim>\<open>Booking Rejected\<close> and a message that ends with
    \<^verbatim>\<open>Reason: \<close> and the notes as text when the notes are truthy; except that when the
    notes are truthy and have no conversion to a string, the reject call is answered 500
    after the update, and no notification is created.
\<close>

theorem review_booking:
  assumes "authenticateToken E now h = Inr caller" and "au_role caller = ''admin''"
      and "owners_exist d"
  shows
   \<open>(parseInt pid = None \<or>
     (\<exists>n. parseInt pid = Some n \<and> (n < - 2147483648 \<or> 2147483647 < n)) \<or>
     \<not> storable notes \<longrightarrow>
       patch_admin_booking_approve E now h pid notes d
         = ((500, Message ''Failed to approve booking''), d) \<and>
       patch_admin_booking_reject E now h pid notes d
         = ((500, Message ''Failed to reject booking''), d)) \<and>
    (parseInt pid = Some i \<and> - 2147483648 \<le> i \<and> i \<le> 2147483647 \<and> storable notes \<longrightarrow>
       ((\<forall>b \<in> set (bookings d). b_id b \<noteq> i) \<longrightarrow>
          patch_admin_booking_approve E now h pid notes d
            = ((404, Message ''Booking not found''), d) \<and>
          patch_admin_booking_reject E now h pid notes d
            = ((404, Message ''Booking not found''), d)) \<and>
       ((\<exists>b \<in> set (bookings d). b_id b = i) \<and>
        (\<forall>u \<in> set (users d). u_id u \<noteq> au_id caller) \<longrightarrow>
          patch_admin_booking_approve E now h pid notes d
            = ((500, Message ''Failed to approve booking''), d) \<and>
          patch_admin_booking_reject E now h pid notes d
            = ((500, Message ''Failed to reject booking''), d)) \<and>
       (find (\<lambda>b. b_id b = i) (bookings d) = Some old \<and>
        (\<exists>u \<in> set (users d). u_id u = au_id caller) \<longrightarrow>
          (\<exists>upd n d1.
             patch_admin_booking_approve E now h pid notes d = ((200, OneBooking upd), d1) \<and>
             reviewed_as Approved (au_id caller) now notes old upd \<and>
             review_stored Approved (au_id caller) now notes i old n d d1 \<and>
             n_title n = ''Booking Approved'' \<and> n_type n = ''success'' \<and>
             n_message n
               = ''Your booking request for "'' @ b_eventName old @ ''" has been approved!'') \<and>
          ((truthy notes \<longrightarrow> template notes = Some txt) \<longrightarrow>
             (\<exists>upd n d1.
                patch_admin_booking_reject E now h pid notes d = ((200, OneBooking upd), d1) \<and>
                reviewed_as Rejected (au_id caller) now notes old upd \<and>
                review_stored Rejected (au_id caller) now notes i old n d d1 \<and>
                n_title n = ''Booking Rejected'' \<and> n_type n = ''error'' \<and>
                n_message n
                  = ''Your booking request for "'' @ b_eventName old @ ''" has been rejected. ''
                    @ (if truthy notes then ''Reason: '' @ txt else []))) \<and>
          (truthy notes \<and> template notes = None \<longrightarrow>
             (\<exists>d1.
                patch_admin_booking_reject E now h pid notes d
                  = ((500, Message ''Failed to reject booking''), d1) \<and>
                list_all2 (\<lambda>b b1. if b_id b = i
                     then reviewed_as Rejected (au_id caller) now notes b b1 else b1 = b)
                  (bookings d) (bookings d1) \<and>
                notifications d1 = notifications d \<and> users d1 = users d \<and>
                facilities d1 = facilities d))))\<close>
proof (intro conjI impI)
  assume "parseInt pid = None \<or>
     (\<exists>n. parseInt pid = Some n \<and> (n < - 2147483648 \<or> 2147483647 < n)) \<or> \<not> storable notes"
  then have r: "integer_param (parseInt pid) = Inl InvalidParameter \<or> \<not> storable notes"
    by (auto simp: integer_param_Inl)
  from review_refused [OF assms(1,2) r]
  show "patch_admin_booking_approve E now h pid notes d
         = ((500, Message ''Failed to approve booking''), d)"
    and "patch_admin_booking_reject E now h pid notes d
         = ((500, Message ''Failed to reject booking''), d)"
    by simp_all
next
  assume a: "parseInt pid = Some i \<and> - 2147483648 \<le> i \<and> i \<le> 2147483647 \<and> storable notes"
    and b: "\<forall>b \<in> set (bookings d). b_id b \<noteq> i"
  from a have p: "integer_param (parseInt pid) = Inr i" and s: "storable notes"
    by (simp_all add: integer_param_Inr)
  from b have n: "\<not> (\<exists>b \<in> set (bookings d). b_id b = i)" by simp
  from review_absent [OF assms(1,2) p s n]
  show "patch_admin_booking_approve E now h pid notes d = ((404, Message ''Booking not found''), d)"
    and "patch_admin_booking_reject E now h pid notes d = ((404, Message ''Booking not found''), d)"
    by simp_all
next
  assume a: "parseInt pid = Some i \<and> - 2147483648 \<le> i \<and> i \<le> 2147483647 \<and> storable notes"
    and b: "(\<exists>b \<in> set (bookings d). b_id b = i) \<and> (\<forall>u \<in> set (users d). u_id u \<noteq> au_id caller)"
  from a have p: "integer_param (parseInt pid) = Inr i" and s: "storable notes"
    by (simp_all add: integer_param_Inr)
  from b have e: "\<exists>b \<in> set (bookings d). b_id b = i"
    and n: "\<not> (\<exists>u \<in> set (users d). u_id u = au_id caller)" by simp_all
  from review_by_deleted_admin [OF assms(1,2) p s e n]
  show "patch_admin_booking_approve E now h pid notes d
         = ((500, Message ''Failed to approve booking''), d)"
    and "patch_admin_booking_reject E now h pid notes d
         = ((500, Message ''Failed to reject booking''), d)"
    by simp_all
next
  assume a: "parseInt pid = Some i \<and> - 2147483648 \<le> i \<and> i \<le> 2147483647 \<and> storable notes"
    and b: "find (\<lambda>b. b_id b = i) (bookings d) = Some old \<and>
            (\<exists>u \<in> set (users d). u_id u = au_id caller)"
  from a have p: "integer_param (parseInt pid) = Inr i" and s: "storable notes"
    by (simp_all add: integer_param_Inr)
  from b have f: "find (\<lambda>b. b_id b = i) (bookings d) = Some old"
    and c: "\<exists>u \<in> set (users d). u_id u = au_id caller" by simp_all
  from owner_exists [OF assms(3) f] have o: "\<exists>u \<in> set (users d). u_id u = b_userId old" .
  from approve_found [OF assms(1,2) p s f c o]
  show \<open>\<exists>upd n d1.
          patch_admin_booking_approve E now h pid notes d = ((200, OneBooking upd), d1) \<and>
          reviewed_as Approved (au_id caller) now notes old upd \<and>
          review_stored Approved (au_id caller) now notes i old n d d1 \<and>
          n_title n = ''Booking Approved'' \<and> n_type n = ''success'' \<and>
          n_message n = ''Your booking request for "'' @ b_eventName old @ ''" has been approved!''\<close>
    using reviewed_as_review by blast
  {
    assume "truthy notes \<longrightarrow> template notes = Some txt"
    then have w: "reason notes = Some (if truthy notes then ''Reason: '' @ txt else [])"
      by (rule reason_Some)
    from reject_found [OF assms(1,2) p s f c o w]
    show \<open>\<exists>upd n d1.
            patch_admin_booking_reject E now h pid notes d = ((200, OneBooking upd), d1) \<and>
            reviewed_as Rejected (au_id caller) now notes old upd \<and>
            review_stored Rejected (au_id caller) now notes i old n d d1 \<and>
            n_title n = ''Booking Rejected'' \<and> n_type n = ''error'' \<and>
            n_message n
              = ''Your booking request for "'' @ b_eventName old @ ''" has been rejected. ''
                @ (if truthy notes then ''Reason: '' @ txt else [])\<close>
      using reviewed_as_review by blast
  }
  {
    assume "truthy notes \<and> template notes = None"
    then have w: "reason notes = None" by (simp add: reason_None)
    from reject_unconvertible [OF assms(1,2) p s f c w]
    show "\<exists>d1.
            patch_admin_booking_reject E now h pid notes d
              = ((500, Message ''Failed to reject booking''), d1) \<and>
            list_all2 (\<lambda>b b1. if b_id b = i
                 then reviewed_as Rejected (au_id caller) now notes b b1 else b1 = b)
              (bookings d) (bookings d1) \<and>
            notifications d1 = notifications d \<and> users d1 = users d \<and>
            facilities d1 = facilities d"
      by (simp add: list_all2_review)
  }
qed

theorem review_booking_witness:
  "owners_exist db_pending \<and> owners_exist db_approved \<and> owners_exist db_ben_gone \<and>
   parseInt ''abc'' = None \<and> parseInt ''7'' = Some 7 \<and> parseInt ''1'' = Some 1 \<and>
   patch_admin_booking_approve env0 5 ben_header ''abc'' (JsString ''ok'') db_pending
     = ((500, Message ''Failed to approve booking''), db_pending) \<and>
   patch_admin_booking_approve env0 5 ben_header ''7'' (JsString ''ok'') db_pending
     = ((404, Message ''Booking not found''), db_pending) \<and>
   patch_admin_booking_approve env0 8 ben_header ''1'' (JsString ''ok'') db_ben_gone
     = ((500, Message ''Failed to approve booking''), db_ben_gone) \<and>
   patch_admin_booking_approve env0 5 ben_header ''1'' (JsString ''ok'') db_pending
     = ((200, OneBooking finals_approved), db_approved) \<and>
   reviewed_as Approved 2 5 (JsString ''ok'') finals finals_approved \<and>
   review_stored Approved 2 5 (JsString ''ok'') 1 finals notice_approved db_pending db_approved \<and>
   patch_admin_booking_reject env0 6 ben_header ''1'' JsUndefined db_approved
     = ((200, OneBooking finals_rejected), db_rejected) \<and>
   reviewed_as Rejected 2 6 JsUndefined finals_approved finals_rejected \<and>
   review_stored Rejected 2 6 JsUndefined 1 finals_approved notice_rejected db_approved
     db_rejected"
proof -
  have own: "owners_exist db_pending"
    by (simp add: owners_exist_def db_pending_def db_open_def finals_def ana_def)
  have own_approved: "owners_exist db_approved"
    by (simp add: owners_exist_def db_approved_def db_pending_def db_open_def
        finals_approved_def finals_def ana_def)
  have own_gone: "owners_exist db_ben_gone"
    by (simp add: owners_exist_def db_ben_gone_def db_cal_approved_def finals_cal_def
        finals_def ana_def)
  have admin: "au_role \<lparr> au_id = 2, au_email = ''ben@campus.edu'', au_role = ''admin'' \<rparr> = ''admin''"
    by simp
  have nan: "parseInt ''abc'' = None \<or>
      (\<exists>n. parseInt ''abc'' = Some n \<and> (n < - 2147483648 \<or> 2147483647 < n)) \<or>
      \<not> storable (JsString ''ok'')"
    by (simp add: parseInt_samples)
  have range7: "parseInt ''7'' = Some 7 \<and> - 2147483648 \<le> (7::int) \<and> (7::int) \<le> 2147483647 \<and>
      storable (JsString ''ok'')"
    by (simp add: parseInt_samples)
  have absent: "\<forall>b \<in> set (bookings db_pending). b_id b \<noteq> 7"
    by (simp add: db_pending_def finals_def)
  have range1: "parseInt ''1'' = Some 1 \<and> - 2147483648 \<le> (1::int) \<and> (1::int) \<le> 2147483647 \<and>
      storable (JsString ''ok'')"
    by (simp add: parseInt_samples)
  have range1u: "parseInt ''1'' = Some 1 \<and> - 2147483648 \<le> (1::int) \<and> (1::int) \<le> 2147483647 \<and>
      storable JsUndefined"
    by (simp add: parseInt_samples)
  have gone: "(\<exists>b \<in> set (bookings db_ben_gone). b_id b = 1) \<and>
      (\<forall>u \<in> set (users db_ben_gone).
         u_id u \<noteq> au_id \<lparr> au_id = 2, au_email = ''ben@campus.edu'', au_role = ''admin'' \<rparr>)"
    by (simp add: db_ben_gone_def db_cal_approved_def finals_cal_def finals_def ana_def cal_def)
  have found: "find (\<lambda>b. b_id b = 1) (bookings db_pending) = Some finals \<and>
      (\<exists>u \<in> set (users db_pending).
         u_id u = au_id \<lparr> au_id = 2, au_email = ''ben@campus.edu'', au_role = ''admin'' \<rparr>)"
    by (simp add: db_pending_def db_open_def finals_def ana_def ben_def)
  have found_approved: "find (\<lambda>b. b_id b = 1) (bookings db_approved) = Some finals_approved \<and>
      (\<exists>u \<in> set (users db_approved).
         u_id u = au_id \<lparr> au_id = 2, au_email = ''ben@campus.edu'', au_role = ''admin'' \<rparr>)"
    by (simp add: db_approved_def db_pending_def db_open_def finals_approved_def finals_def
        ana_def ben_def)
  have falsy: "truthy JsUndefined \<longrightarrow> template JsUndefined = Some []"
    by simp
  note tn = review_booking [OF authenticateToken_ben admin own,
      where pid = "''abc''" and ?notes = "JsString ''ok''" and now = 5]
  note t7 = review_booking [OF authenticateToken_ben admin own,
      where pid = "''7''" and i = 7 and ?notes = "JsString ''ok''" and now = 5]
  note tg = review_booking [OF authenticateToken_ben admin own_gone,
      where pid = "''1''" and i = 1 and ?notes = "JsString ''ok''" and now = 8]
  note t1 = review_booking [OF authenticateToken_ben admin own,
      where pid = "''1''" and i = 1 and ?notes = "JsString ''ok''" and old = finals and now = 5]
  note tu = review_booking [OF authenticateToken_ben admin own_approved,
      where pid = "''1''" and i = 1 and ?notes = JsUndefined and old = finals_approved
        and now = 6 and ?txt = "[]"]
  from tn [THEN conjunct1, THEN mp, OF nan]
  have bad: "patch_admin_booking_approve env0 5 ben_header ''abc'' (JsString ''ok'') db_pending
     = ((500, Message ''Failed to approve booking''), db_pending)"
    by simp
  from t7 [THEN conjunct2, THEN mp, OF range7, THEN conjunct1, THEN mp, OF absent]
  have nf: "patch_admin_booking_approve env0 5 ben_header ''7'' (JsString ''ok'') db_pending
     = ((404, Message ''Booking not found''), db_pending)"
    by simp
  from tg [THEN conjunct2, THEN mp, OF range1, THEN conjunct2, THEN conjunct1, THEN mp, OF gone]
  have del: "patch_admin_booking_approve env0 8 ben_header ''1'' (JsString ''ok'') db_ben_gone
     = ((500, Message ''Failed to approve booking''), db_ben_gone)"
    by simp
  from t1 [THEN conjunct2, THEN mp, OF range1, THEN conjunct2, THEN conjunct2, THEN mp, OF found,
      THEN conjunct1]
  obtain upd n d1 where
    r: "patch_admin_booking_approve env0 5 ben_header ''1'' (JsString ''ok'') db_pending
          = ((200, OneBooking upd), d1)"
    and ra: "reviewed_as Approved 2 5 (JsString ''ok'') finals upd"
    and rs: "review_stored Approved 2 5 (JsString ''ok'') 1 finals n db_pending d1"
    by auto
  from r approve_finals have eq: "upd = finals_approved" "d1 = db_approved" by simp_all
  from rs eq have n: "n = notice_approved"
    by (simp add: review_stored_def db_approved_def db_pending_def)
  from tu [THEN conjunct2, THEN mp, OF range1u, THEN conjunct2, THEN conjunct2, THEN mp,
      OF found_approved, THEN conjunct2, THEN conjunct1, THEN mp, OF falsy]
  obtain upd2 n2 d2 where
    r2: "patch_admin_booking_reject env0 6 ben_header ''1'' JsUndefined db_approved
          = ((200, OneBooking upd2), d2)"
    and ra2: "reviewed_as Rejected 2 6 JsUndefined finals_approved upd2"
    and rs2: "review_stored Rejected 2 6 JsUndefined 1 finals_approved n2 db_approved d2"
    by auto
  from r2 reject_finals_approved have eq2: "upd2 = finals_rejected" "d2 = db_rejected"
    by simp_all
  from rs2 eq2 have n2: "n2 = notice_rejected"
    by (simp add: review_stored_def db_rejected_def db_approved_def db_pending_def)
  from own own_approved own_gone bad nf del approve_finals ra rs eq n
    reject_finals_approved ra2 rs2 eq2 n2
  show ?thesis by (simp add: parseInt_samples)
qed

text \<open>
  C4 says that a review of a booking already approved or rejected still succeeds and
  overwrites the status, the reviewer, the review timestamp and the notes. Booking 1 was
  approved with the note \<open>ok\<close>; Ben rejects it in a call that has no notes: the booking
  is rejected and its notes are still \<open>ok\<close>. And the call need not succeed: in the state
  where Cal has approved booking 1 and deleted Ben's account, Ben's reject call is
  answered 500 and booking 1 stays approved.
\<close>

theorem review_after_review_counterexample:
  "b_status finals_approved = Approved \<and> b_adminNotes finals_approved = Some ''ok'' \<and>
   patch_admin_booking_reject env0 6 ben_header ''1'' JsUndefined db_approved
     = ((200, OneBooking finals_rejected), db_rejected) \<and>
   bookings db_rejected = [finals_rejected] \<and>
   b_status finals_rejected = Rejected \<and> b_adminNotes finals_rejected = Some ''ok'' \<and>
   reachable env0 db_ben_gone \<and> bookings db_ben_gone = [finals_cal] \<and>
   b_status finals_cal = Approved \<and>
   authenticateToken env0 8 ben_header
     = Inr \<lparr> au_id = 2, au_email = ''ben@campus.edu'', au_role = ''admin'' \<rparr> \<and>
   patch_admin_booking_reject env0 8 ben_header ''1'' (JsString ''no'') db_ben_gone
     = ((500, Message ''Failed to reject booking''), db_ben_gone)"
proof -
  have "patch_admin_booking_reject env0 8 ben_header ''1'' (JsString ''no'') db_ben_gone
     = ((500, Message ''Failed to reject booking''), db_ben_gone)"
    by (simp add: patch_admin_booking_reject_def admin_only_def authenticateToken_ben
        requireAdmin_def parseInt_samples integer_param_def updateBookingStatus_def
        db_ben_gone_def db_cal_approved_def db_cal_def db_pending_def db_open_def
        finals_def finals_cal_def ana_def cal_def)
  with reject_finals_approved reachable_db_ben_gone authenticateToken_ben [of 8]
  show ?thesis
    by (simp add: finals_approved_def finals_rejected_def finals_cal_def finals_def
        db_rejected_def db_ben_gone_def db_cal_approved_def)
qed

text \<open>
  C4, amended. Nothing guards a decided booking. Let the status of a booking be approved
  or rejected, and let an administrator (the token verifies, its role is \<^verbatim>\<open>admin\<close>)
  call approve or reject with the booking's id in the path (\<^verbatim>\<open>parseInt\<close> reads it, and
  it is in the range of a 32-bit integer), while the caller still has a user row, every
  booking's owner has one, and the text of the notes has no zero byte. Then the call
  overwrites the status (an approved booking can be approved again or flipped to
  rejected), the reviewer and the review timestamp. The notes are overwritten only when
  the body has notes: by the string when they are a string, by nothing when they are
  \<^verbatim>\<open>null\<close>, by the text of any other value; a call without notes keeps the stored
  ones. The call is answered 200 with the booking as updated, except a reject call whose
  notes are truthy and have no conversion to a string: it is answered 500, and the
  booking is overwritten all the same.
\<close>

theorem review_after_review:
  assumes "authenticateToken E now h = Inr caller" and "au_role caller = ''admin''"
      and "parseInt pid = Some i" and "- 2147483648 \<le> i" and "i \<le> 2147483647"
      and "find (\<lambda>b. b_id b = i) (bookings d) = Some old"
      and "b_status old = Approved \<or> b_status old = Rejected"
      and "\<exists>u \<in> set (users d). u_id u = au_id caller"
      and "owners_exist d"
      and "storable notes"
  shows
   "(\<exists>upd d1.
       patch_admin_booking_approve E now h pid notes d = ((200, OneBooking upd), d1) \<and>
       find (\<lambda>b. b_id b = i) (bookings d1) = Some upd \<and>
       b_status upd = Approved \<and> b_reviewedBy upd = Some (au_id caller) \<and>
       b_reviewedAt upd = Some now \<and>
       b_adminNotes upd = notes_after notes (b_adminNotes old)) \<and>
    (\<exists>upd d1.
       patch_admin_booking_reject E now h pid notes d
         = (if truthy notes \<and> template notes = None
            then (500, Message ''Failed to reject booking'') else (200, OneBooking upd), d1) \<and>
       find (\<lambda>b. b_id b = i) (bookings d1) = Some upd \<and>
       b_status upd = Rejected \<and> b_reviewedBy upd = Some (au_id caller) \<and>
       b_reviewedAt upd = Some now \<and>
       b_adminNotes upd = notes_after notes (b_adminNotes old))"
proof
  from assms(3,4,5) have p: "integer_param (parseInt pid) = Inr i"
    by (simp add: integer_param_Inr)
  from owner_exists [OF assms(9,6)] have o: "\<exists>u \<in> set (users d). u_id u = b_userId old" .
  from approve_found [OF assms(1,2) p assms(10,6,8) o] obtain n d1 where
    "patch_admin_booking_approve E now h pid notes d
       = ((200, OneBooking (review now Approved (au_id caller) notes old)), d1)"
    "bookings d1 = map (\<lambda>b. if b_id b = i then review now Approved (au_id caller) notes b else b)
                           (bookings d)"
    by blast
  then show "\<exists>upd d1.
       patch_admin_booking_approve E now h pid notes d = ((200, OneBooking upd), d1) \<and>
       find (\<lambda>b. b_id b = i) (bookings d1) = Some upd \<and>
       b_status upd = Approved \<and> b_reviewedBy upd = Some (au_id caller) \<and>
       b_reviewedAt upd = Some now \<and>
       b_adminNotes upd = notes_after notes (b_adminNotes old)"
    using assms(6) by (simp add: find_map_review) (simp add: review_def notes_after_text_param)
next
  let ?upd = "review now Rejected (au_id caller) notes old"
  let ?bs = "map (\<lambda>b. if b_id b = i then review now Rejected (au_id caller) notes b else b)
               (bookings d)"
  from assms(3,4,5) have p: "integer_param (parseInt pid) = Inr i"
    by (simp add: integer_param_Inr)
  from owner_exists [OF assms(9,6)] have o: "\<exists>u \<in> set (users d). u_id u = b_userId old" .
  have fields: "find (\<lambda>b. b_id b = i) ?bs = Some ?upd"
      "b_status ?upd = Rejected" "b_reviewedBy ?upd = Some (au_id caller)"
      "b_reviewedAt ?upd = Some now" "b_adminNotes ?upd = notes_after notes (b_adminNotes old)"
    using assms(6) by (simp_all add: find_map_review review_def notes_after_text_param)
  have "\<exists>d1. patch_admin_booking_reject E now h pid notes d
         = (if truthy notes \<and> template notes = None
            then (500, Message ''Failed to reject booking'') else (200, OneBooking ?upd), d1) \<and>
       bookings d1 = ?bs"
  proof (cases "reason notes")
    case None
    then have t: "truthy notes \<and> template notes = None"
      by (auto simp: reason_def split: if_splits)
    from reject_unconvertible [OF assms(1,2) p assms(10,6,8) None] t
    show ?thesis by simp
  next
    case (Some why)
    then have t: "\<not> (truthy notes \<and> template notes = None)"
      by (auto simp: reason_def)
    from reject_found [OF assms(1,2) p assms(10,6,8) o Some] t
    show ?thesis by auto
  qed
  with fields show "\<exists>upd d1.
       patch_admin_booking_reject E now h pid notes d
         = (if truthy notes \<and> template notes = None
            then (500, Message ''Failed to reject booking'') else (200, OneBooking upd), d1) \<and>
       find (\<lambda>b. b_id b = i) (bookings d1) = Some upd \<and>
       b_status upd = Rejected \<and> b_reviewedBy upd = Some (au_id caller) \<and>
       b_reviewedAt upd = Some now \<and>
       b_adminNotes upd = notes_after notes (b_adminNotes old)"
    by (intro exI [of _ ?upd]) auto
qed

theorem review_after_review_witness:
  "b_status finals_approved = Approved \<and> parseInt ''1'' = Some 1 \<and>
   patch_admin_booking_reject env0 6 ben_header ''1'' JsUndefined db_approved
     = ((200, OneBooking finals_rejected), db_rejected) \<and>
   find (\<lambda>b. b_id b = 1) (bookings db_rejected) = Some finals_rejected \<and>
   b_status finals_rejected = Rejected \<and> b_reviewedBy finals_rejected = Some 2 \<and>
   b_reviewedAt finals_rejected = Some 6 \<and>
   b_adminNotes finals_rejected = b_adminNotes finals_approved"
proof -
  have found: "find (\<lambda>b. b_id b = 1) (bookings db_approved) = Some finals_approved"
    by (simp add: db_approved_def finals_approved_def finals_def)
  have st: "b_status finals_approved = Approved \<or> b_status finals_approved = Rejected"
    by (simp add: finals_approved_def)
  have admin: "au_role \<lparr> au_id = 2, au_email = ''ben@campus.edu'', au_role = ''admin'' \<rparr> = ''admin''"
    by simp
  have c: "\<exists>u \<in> set (users db_approved).
      u_id u = au_id \<lparr> au_id = 2, au_email = ''ben@campus.edu'', au_role = ''admin'' \<rparr>"
    by (simp add: db_approved_def db_pending_def db_open_def ben_def)
  have o: "owners_exist db_approved"
    by (simp add: owners_exist_def db_approved_def db_pending_def db_open_def ana_def
        finals_approved_def finals_def)
  have p: "parseInt ''1'' = Some 1" by (simp add: parseInt_samples)
  have s: "storable JsUndefined" by simp
  from review_after_review [OF authenticateToken_ben admin p _ _ found st c o s, where now = 6]
  obtain upd d1 where
    "patch_admin_booking_reject env0 6 ben_header ''1'' JsUndefined db_approved
       = ((200, OneBooking upd), d1)"
    "find (\<lambda>b. b_id b = 1) (bookings d1) = Some upd"
    "b_status upd = Rejected" "b_reviewedBy upd = Some 2" "b_reviewedAt upd = Some 6"
    "b_adminNotes upd = b_adminNotes finals_approved"
    by auto
  with reject_finals_approved p show ?thesis
    by (simp add: finals_approved_def)
qed

section \<open>Routes that do not exist\<close>

text \<open>
  \<^verbatim>\<open>routes.ts\<close> registers no route for \<^verbatim>\<open>DELETE\<close>, \<^verbatim>\<open>PATCH\<close> or \<^verbatim>\<open>PUT\<close> on
  \<^verbatim>\<open>/api/bookings/:id\<close>: whoever sends such a request and whatever the booking's
  status, none of its handlers answers and the database stays as it is.
\<close>

lemma booking_edit_delete_unrouted:
  assumes "rq_method rq = DELETE \<or> rq_method rq = PATCH \<or> rq_method rq = PUT"
      and "rq_path rq = [''api'', ''bookings'', seg]"
  shows "route (rq_method rq) (rq_path rq) = None \<and> serve E now rq d = (None, d)"
  using assms by (auto simp: serve_def route_def)

text \<open>
  C6. The owner of a booking may edit or delete it while it is pending, and nobody else
  may, nor the owner later (Forbidden). The server does not do this. Ana owns booking 1,
  which is pending, and her token verifies: her \<^verbatim>\<open>DELETE /api/bookings/1\<close>, the
  request that the page of her bookings sends, reaches no handler and booking 1 is still
  there; nor does a \<^verbatim>\<open>PATCH\<close> or a \<^verbatim>\<open>PUT\<close>. Once the booking is approved her
  \<^verbatim>\<open>DELETE\<close> is not answered 403 either: again no handler answers.
\<close>

theorem booking_delete_unserved:
  "reachable env0 db_pending \<and>
   rq_method rq_delete = DELETE \<and> rq_path rq_delete = [''api'', ''bookings'', ''1''] \<and>
   authenticateToken env0 9 (rq_authorization rq_delete)
     = Inr \<lparr> au_id = 1, au_email = ''ana@campus.edu'', au_role = ''student'' \<rparr> \<and>
   bookings db_pending = [finals] \<and> b_id finals = 1 \<and> b_userId finals = 1 \<and>
   b_status finals = Pending \<and>
   route DELETE [''api'', ''bookings'', ''1''] = None \<and>
   serve env0 9 rq_delete db_pending = (None, db_pending) \<and>
   serve env0 9 (rq_delete\<lparr>rq_method := PATCH\<rparr>) db_pending = (None, db_pending) \<and>
   serve env0 9 (rq_delete\<lparr>rq_method := PUT\<rparr>) db_pending = (None, db_pending) \<and>
   bookings db_approved = [finals_approved] \<and> b_id finals_approved = 1 \<and>
   b_userId finals_approved = 1 \<and> b_status finals_approved = Approved \<and>
   serve env0 9 rq_delete db_approved = (None, db_approved) \<and>
   map_option fst (fst (serve env0 9 rq_delete db_approved)) \<noteq> Some 403"
  using authenticateToken_ana [of 9] reachable_db_pending
  by (simp add: serve_def route_def rq_delete_def rq0_def db_approved_def db_pending_def
      finals_approved_def finals_def)

section \<open>User rows in responses\<close>

text \<open>
  C10. No response with user data should contain a stored password hash. The response
  of \<^verbatim>\<open>GET /api/bookings/my\<close> does: each booking comes with the whole user rows of its
  owner and of its reviewer. Ana lists her bookings and receives her own hash and Ben's.
\<close>

theorem bookings_my_returns_password_hashes:
  "serve env0 7 rq_my_bookings db_approved
     = (Some (200, BookingList [withRelations db_approved finals_approved]), db_approved) \<and>
   rel_user (withRelations db_approved finals_approved) = Some ana \<and>
   rel_reviewer (withRelations db_approved finals_approved) = Some ben \<and>
   u_password ana = bcrypt_hash env0 ''secret1'' \<and>
   u_password ben = bcrypt_hash env0 ''secret2''"
  using authenticateToken_ana [of 7]
  by (simp add: serve_def route_def handle_def rq_my_bookings_def rq0_def get_bookings_my_def
      authenticated_def getUserBookings_def orderBy_def withRelations_def getUser_def
      db_approved_def db_pending_def db_open_def finals_approved_def finals_def
      booking.extend_def booking_with_relations.fields_def ana_def ben_def env0_def)

text \<open>
  The five endpoints that answer with user objects do remove the password: each object
  is \<open>withoutPassword\<close> of a row of the users table.
\<close>

lemma set_insert_by: "set (insert_by le x xs) = insert x (set xs)"
  by (induction xs) auto

lemma set_orderBy: "set (orderBy le xs) = set xs"
  by (induction xs) (simp_all add: orderBy_def set_insert_by)

lemma find_Some_set: "find P xs = Some x \<Longrightarrow> x \<in> set xs"
  by (induction xs) (auto split: if_splits)

lemma register_strips_password:
  assumes "post_auth_register E now body d = ((201, p), d1)"
  shows "\<exists>u \<in> set (users d1). p = UserAndToken (withoutPassword u) (token_for E now u)"
  using assms
  by (auto simp: post_auth_register_def createUser_def Let_def
      split: option.splits prod.splits sum.splits if_splits)

lemma login_strips_password:
  assumes "post_auth_login E now body d = ((200, p), d1)"
  shows "\<exists>u \<in> set (users d1). p = UserAndToken (withoutPassword u) (token_for E now u)"
  using assms
  by (auto simp: post_auth_login_def getUserByEmail_def
      split: option.splits prod.splits if_splits dest: find_Some_set)

lemma profile_strips_password:
  assumes "patch_users_profile E now h body d = ((200, p), d1)"
  shows "\<exists>u \<in> set (users d1). p = UserOnly (withoutPassword u)"
  using assms unfolding patch_users_profile_def
  by (elim authenticated_cases)
    (auto simp: updateUser_def Let_def split: option.splits dest!: find_Some_set)

lemma role_strips_password:
  assumes "patch_admin_user_role E now h i ro d = ((200, p), d1)"
  shows "\<exists>u \<in> set (users d1). p = UserOnly (withoutPassword u)"
  using assms unfolding patch_admin_user_role_def
  by (elim admin_only_cases)
    (auto simp: updateUserRole_def Let_def split: option.splits sum.splits dest!: find_Some_set)

lemma users_strips_password:
  assumes "get_admin_users E now h d = ((200, p), d1)"
  shows "\<exists>us. set us = set (users d1) \<and> p = UserList (map withoutPassword us)"
  using assms unfolding get_admin_users_def
  by (elim admin_only_cases)
    (auto simp: getAllUsers_def Let_def set_orderBy
      intro!: exI [of _ "orderBy (\<lambda>a b. desc (u_createdAt a) (u_createdAt b)) (users d1)"])

section \<open>The owner of a booking exists\<close>

lemma owners_exist_frame:
  "owners_exist d \<Longrightarrow> bookings d1 = bookings d \<Longrightarrow> u_id ` set (users d) \<subseteq> u_id ` set (users d1)
     \<Longrightarrow> owners_exist d1"
  by (auto simp: owners_exist_def)

lemma image_map_key:
  assumes "\<And>x. k (g x) = k x"
  shows "k ` set (map (\<lambda>x. if P x then g x else x) xs) = k ` set xs"
  using assms by (induction xs) auto

lemma createUser_owners:
  "owners_exist d \<Longrightarrow> createUser E now d usr = (r, d1) \<Longrightarrow> owners_exist d1"
  by (erule owners_exist_frame) (auto simp: createUser_def Let_def split: if_splits)

lemma updateUser_owners:
  "owners_exist d \<Longrightarrow> updateUser now d i data = (r, d1) \<Longrightarrow> owners_exist d1"
  by (erule owners_exist_frame)
    (auto simp: updateUser_def Let_def image_map_key simp del: set_map)

lemma updateUserPassword_owners:
  "owners_exist d \<Longrightarrow> updateUserPassword now d i p = (r, d1) \<Longrightarrow> owners_exist d1"
  by (erule owners_exist_frame)
    (auto simp: updateUserPassword_def image_map_key simp del: set_map)

lemma updateUserRole_owners:
  "owners_exist d \<Longrightarrow> updateUserRole now d i ro = (r, d1) \<Longrightarrow> owners_exist d1"
  by (erule owners_exist_frame)
    (auto simp: updateUserRole_def Let_def image_map_key simp del: set_map split: sum.splits)

lemma deleteUser_owners:
  assumes "owners_exist d" and "deleteUser d num = (r, d1)"
  shows "owners_exist d1"
proof (cases "integer_param num")
  case (Inl e)
  with assms show ?thesis by (simp add: deleteUser_def)
next
  case (Inr i)
  show ?thesis
  proof (cases "(\<exists>u \<in> set (users d). u_id u = i) \<and> user_referenced d i")
    case True
    with assms Inr show ?thesis by (simp add: deleteUser_def)
  next
    case False
    with assms(2) Inr have d1: "d1 = d\<lparr>users := filter (\<lambda>u. u_id u \<noteq> i) (users d)\<rparr>"
      by (simp add: deleteUser_def)
    show ?thesis
      unfolding owners_exist_def
    proof
      fix x assume "x \<in> b_userId ` set (bookings d1)"
      then obtain b where b: "b \<in> set (bookings d)" "x = b_userId b" using d1 by auto
      with assms(1) obtain u where u: "u \<in> set (users d)" "u_id u = x"
        by (auto simp: owners_exist_def)
      with False b have "x \<noteq> i" by (auto simp: user_referenced_def)
      with u show "x \<in> u_id ` set (users d1)" using d1 by auto
    qed
  qed
qed

lemma createFacility_owners:
  "owners_exist d \<Longrightarrow> createFacility now d fac = (r, d1) \<Longrightarrow> owners_exist d1"
  by (erule owners_exist_frame) (auto simp: createFacility_def Let_def)

lemma updateFacility_owners:
  "owners_exist d \<Longrightarrow> updateFacility now d i data = (r, d1) \<Longrightarrow> owners_exist d1"
  by (erule owners_exist_frame) (auto simp: updateFacility_def Let_def split: sum.splits)

lemma deleteFacility_owners:
  "owners_exist d \<Longrightarrow> deleteFacility d i = (r, d1) \<Longrightarrow> owners_exist d1"
  by (erule owners_exist_frame) (auto simp: deleteFacility_def split: if_splits sum.splits)

lemma createBooking_owners:
  assumes "owners_exist d" and "createBooking now d bk = (r, d1)"
  shows "owners_exist d1"
proof (cases "(\<exists>u \<in> set (users d). u_id u = ib_userId bk) \<and>
              (\<exists>f \<in> set (facilities d). f_id f = ib_facilityId bk)")
  case True
  then have own: "ib_userId bk \<in> u_id ` set (users d)" by force
  from True assms(2) obtain nb where
    "bookings d1 = bookings d @ [nb]" "b_userId nb = ib_userId bk" "users d1 = users d"
    by (auto simp: createBooking_def Let_def)
  with assms(1) own show ?thesis by (simp add: owners_exist_def)
next
  case False
  with assms(2) have "bookings d1 = bookings d" "users d1 = users d"
    by (auto simp: createBooking_def Let_def)
  with assms(1) show ?thesis by (simp add: owners_exist_def)
qed

lemma updateBookingStatus_owners:
  assumes "owners_exist d" and "updateBookingStatus now d num st a nts = (r, d1)"
  shows "owners_exist d1"
proof -
  have img: "b_userId ` set (map (\<lambda>b. if b_id b = i then review now st a nts b else b) (bookings d))
      = b_userId ` set (bookings d)" for i
    by (rule image_map_key) (simp add: review_def)
  from assms(2) have "d1 = d \<or>
      (\<exists>i. d1 = d\<lparr>bookings := map (\<lambda>b. if b_id b = i then review now st a nts b else b)
                                  (bookings d)\<rparr>)"
    by (auto simp: updateBookingStatus_def Let_def split: if_splits sum.splits)
  then show ?thesis
  proof
    assume "d1 = d"
    with assms(1) show ?thesis by simp
  next
    assume "\<exists>i. d1 = d\<lparr>bookings := map (\<lambda>b. if b_id b = i then review now st a nts b else b)
                                 (bookings d)\<rparr>"
    then obtain i where
      "d1 = d\<lparr>bookings := map (\<lambda>b. if b_id b = i then review now st a nts b else b)
                            (bookings d)\<rparr>"
      by blast
    with assms(1) img [of i] show ?thesis by (simp add: owners_exist_def del: set_map)
  qed
qed

lemma createNotification_owners:
  "owners_exist d \<Longrightarrow> createNotification now d ntf = (r, d1) \<Longrightarrow> owners_exist d1"
  by (erule owners_exist_frame) (auto simp: createNotification_def Let_def split: if_splits)

lemma markNotificationRead_owners:
  "owners_exist d \<Longrightarrow> markNotificationRead d i = (r, d1) \<Longrightarrow> owners_exist d1"
  by (erule owners_exist_frame) (auto simp: markNotificationRead_def split: sum.splits)

lemma markAllNotificationsRead_owners:
  "owners_exist d \<Longrightarrow> markAllNotificationsRead d i = (r, d1) \<Longrightarrow> owners_exist d1"
  by (erule owners_exist_frame) (auto simp: markAllNotificationsRead_def)

lemma post_auth_register_owners:
  "owners_exist d \<Longrightarrow> post_auth_register E now body d = (r, d1) \<Longrightarrow> owners_exist d1"
  by (auto simp: post_auth_register_def Let_def split: option.splits prod.splits sum.splits
      intro: createUser_owners)

lemma post_auth_login_owners:
  "owners_exist d \<Longrightarrow> post_auth_login E now body d = (r, d1) \<Longrightarrow> owners_exist d1"
  by (auto simp: post_auth_login_def split: option.splits prod.splits if_splits)

lemma patch_users_profile_owners:
  "owners_exist d \<Longrightarrow> patch_users_profile E now h body d = (r, d1) \<Longrightarrow> owners_exist d1"
  unfolding patch_users_profile_def
  by (erule authenticated_cases) (auto split: option.splits prod.splits intro: updateUser_owners)

lemma patch_users_password_owners:
  "owners_exist d \<Longrightarrow> patch_users_password E now h cur new d = (r, d1) \<Longrightarrow> owners_exist d1"
  unfolding patch_users_password_def
  by (erule authenticated_cases)
    (auto simp: Let_def split: option.splits prod.splits if_splits intro: updateUserPassword_owners)

lemma post_bookings_owners:
  "owners_exist d \<Longrightarrow> post_bookings E now h body d = (r, d1) \<Longrightarrow> owners_exist d1"
  unfolding post_bookings_def
  by (erule authenticated_cases)
    (auto simp: Let_def split: option.splits prod.splits sum.splits
      intro: createBooking_owners createNotification_owners)

lemma patch_notification_read_owners:
  "owners_exist d \<Longrightarrow> patch_notification_read E now h i d = (r, d1) \<Longrightarrow> owners_exist d1"
  unfolding patch_notification_read_def
  by (erule authenticated_cases)
    (auto split: prod.splits sum.splits intro: markNotificationRead_owners)

lemma patch_notifications_read_all_owners:
  "owners_exist d \<Longrightarrow> patch_notifications_read_all E now h d = (r, d1) \<Longrightarrow> owners_exist d1"
  unfolding patch_notifications_read_all_def
  by (erule authenticated_cases)
    (auto split: prod.splits intro: markAllNotificationsRead_owners)

lemma patch_admin_booking_approve_owners:
  "owners_exist d \<Longrightarrow> patch_admin_booking_approve E now h i nts d = (r, d1) \<Longrightarrow> owners_exist d1"
  unfolding patch_admin_booking_approve_def
  by (erule admin_only_cases)
    (auto simp: Let_def split: option.splits prod.splits sum.splits
      intro: updateBookingStatus_owners createNotification_owners)

lemma patch_admin_booking_reject_owners:
  "owners_exist d \<Longrightarrow> patch_admin_booking_reject E now h i nts d = (r, d1) \<Longrightarrow> owners_exist d1"
  unfolding patch_admin_booking_reject_def
  by (erule admin_only_cases)
    (auto simp: Let_def split: option.splits prod.splits sum.splits
      intro: updateBookingStatus_owners createNotification_owners)

lemma patch_admin_user_role_owners:
  "owners_exist d \<Longrightarrow> patch_admin_user_role E now h i ro d = (r, d1) \<Longrightarrow> owners_exist d1"
  unfolding patch_admin_user_role_def
  by (erule admin_only_cases)
    (auto simp: Let_def split: option.splits prod.splits sum.splits intro: updateUserRole_owners)

lemma delete_admin_user_owners:
  "owners_exist d \<Longrightarrow> delete_admin_user E now h i d = (r, d1) \<Longrightarrow> owners_exist d1"
  unfolding delete_admin_user_def
  by (erule admin_only_cases)
    (auto simp: Let_def split: option.splits prod.splits sum.splits if_splits
      intro: deleteUser_owners)

lemma post_admin_facilities_owners:
  "owners_exist d \<Longrightarrow> post_admin_facilities E now h body d = (r, d1) \<Longrightarrow> owners_exist d1"
  unfolding post_admin_facilities_def
  by (erule admin_only_cases)
    (auto split: option.splits prod.splits intro: createFacility_owners)

lemma patch_admin_facility_owners:
  "owners_exist d \<Longrightarrow> patch_admin_facility E now h i body d = (r, d1) \<Longrightarrow> owners_exist d1"
  unfolding patch_admin_facility_def
  by (erule admin_only_cases)
    (auto simp: Let_def split: option.splits prod.splits sum.splits intro: updateFacility_owners)

lemma delete_admin_facility_owners:
  "owners_exist d \<Longrightarrow> delete_admin_facility E now h i d = (r, d1) \<Longrightarrow> owners_exist d1"
  unfolding delete_admin_facility_def
  by (erule admin_only_cases)
    (auto simp: Let_def split: option.splits prod.splits sum.splits intro: deleteFacility_owners)

lemma read_only_same:
  "get_facilities d = (r, d1) \<Longrightarrow> d1 = d"
  "get_facility i d = (r, d1) \<Longrightarrow> d1 = d"
  "get_bookings_my E now h d = (r, d1) \<Longrightarrow> d1 = d"
  "get_bookings_stats E now h d = (r, d1) \<Longrightarrow> d1 = d"
  "get_notifications E now h d = (r, d1) \<Longrightarrow> d1 = d"
  "get_admin_bookings E now h d = (r, d1) \<Longrightarrow> d1 = d"
  "get_admin_users E now h d = (r, d1) \<Longrightarrow> d1 = d"
  "get_admin_stats E now h d = (r, d1) \<Longrightarrow> d1 = d"
  by (auto simp: get_facilities_def get_facility_def get_bookings_my_def get_bookings_stats_def
      get_notifications_def get_admin_bookings_def get_admin_users_def get_admin_stats_def
      authenticated_def admin_only_def Let_def split: option.splits sum.splits)

lemma handle_owners:
  assumes "owners_exist d" and "handle E now ep rq d = (r, d1)"
  shows "owners_exist d1"
  using assms
  by (cases ep)
    (auto simp: handle_def
      dest: read_only_same
      intro: post_auth_register_owners post_auth_login_owners patch_users_profile_owners
        patch_users_password_owners post_bookings_owners patch_notification_read_owners
        patch_notifications_read_all_owners patch_admin_booking_approve_owners
        patch_admin_booking_reject_owners patch_admin_user_role_owners delete_admin_user_owners
        post_admin_facilities_owners patch_admin_facility_owners delete_admin_facility_owners)

lemma serve_owners:
  assumes "owners_exist d" and "serve E now rq d = (r, d1)"
  shows "owners_exist d1"
proof (cases "route (rq_method rq) (rq_path rq)")
  case None
  with assms show ?thesis by (simp add: serve_def)
next
  case (Some ep)
  with assms(2) obtain r1 where "handle E now ep rq d = (r1, d1)"
    by (auto simp: serve_def split: prod.splits)
  with assms(1) show ?thesis by (rule handle_owners)
qed

text \<open>
  The owner's user row, which a review needs for its notification, exists in every state
  that requests reach from the empty database; so it does in the state where Ben's account
  is gone.
\<close>

lemma reachable_owners_exist: "reachable E d \<Longrightarrow> owners_exist d"
proof (induction rule: reachable.induct)
  case reachable_empty
  show ?case by (simp add: owners_exist_def empty_db_def)
next
  case (reachable_serve d now rq r d1)
  then show ?case by (blast intro: serve_owners)
qed

section \<open>No request edits or deletes a booking\<close>

lemma review_same_request: "same_request b (review now st a nts b)"
  by (simp add: same_request_def review_def)

lemma same_request_refl: "same_request b b"
  by (simp add: same_request_def)

lemma bookings_effect_keeps:
  assumes "bookings_effect now bs bs1"
  shows "list_all2 same_request bs (take (length bs) bs1)"
  using assms
  by (auto simp: bookings_effect_def list_all2_conv_all_nth nth_append same_request_refl
      review_same_request)

text \<open>
  Whatever the request, the bookings that were in the table are still there afterwards, in
  their places and as the same requests: only their review columns can differ.
\<close>

lemma serve_keeps_requests:
  assumes "serve E now rq d = (r, d1)"
  shows "list_all2 same_request (bookings d) (take (length (bookings d)) (bookings d1))"
  using serve_bookings_effect [OF assms] by (rule bookings_effect_keeps)

end
